theory Spec2Isabelle
  imports Complex_Main "HOL-Library.Word" "HOL-Library.Multiset"
begin

section \<open>Conventions of the embedding\<close>

text \<open>
  The theory embeds the on-chain resolution engine of the X1 token scanner
  (\<^verbatim>\<open>blockchain.py\<close>, \<^verbatim>\<open>analyzer.py\<close>).

  \<^item> Python \<^verbatim>\<open>float\<close> amounts and percentages are modelled by exact rationals
    (\<^typ>\<open>rat\<close>): comparisons against the integer thresholds of the code are exact
    for every finite float, and the algebraic identities proved below are those of
    the formulas written in the code, not of IEEE rounding.
  \<^item> Python \<^verbatim>\<open>int\<close> is \<^typ>\<open>int\<close>; a value read with \<^verbatim>\<open>struct.unpack\<close> from a fixed
    number of bytes, a length or a counter is \<^typ>\<open>nat\<close>.
  \<^item> A raised exception is the left summand of a sum type. All handlers in the
    modelled code are catch-all (\<^verbatim>\<open>except Exception\<close>, bare \<^verbatim>\<open>except\<close>), so a single
    exception value suffices.
  \<^item> A JSON-RPC call is a field of an environment record: the answer the endpoint
    gives for the arguments of the call, or the exception the call raises.
    Library functions of other packages (\<^verbatim>\<open>base58\<close>, \<^verbatim>\<open>base64\<close>) are fields of the
    environment as well.
\<close>

type_synonym byte = "8 word"

datatype exn = Exn

text \<open>Truthiness of an \<^verbatim>\<open>Optional[str]\<close>: \<^verbatim>\<open>None\<close> and the empty string are falsy.\<close>

definition truthy :: "string option \<Rightarrow> bool" where
  "truthy s = (case s of None \<Rightarrow> False | Some t \<Rightarrow> t \<noteq> [])"

section \<open>Data model\<close>

text \<open>\<^verbatim>\<open>blockchain.TokenInfo\<close>; the field \<^verbatim>\<open>supply\<close> is named \<open>raw_supply\<close> here.\<close>

record TokenInfo =
  mint_address :: string
  decimals :: nat
  raw_supply :: nat
  mint_authority :: "string option"
  freeze_authority :: "string option"
  is_initialized :: bool

text \<open>
  \<^verbatim>\<open>blockchain.LPInfo\<close>; its fields \<^verbatim>\<open>pool_address\<close> and \<^verbatim>\<open>lp_mint\<close> are named
  \<open>info_pool_address\<close> and \<open>info_lp_mint\<close> here, apart from the keys of the same
  name of a pool dictionary.
\<close>

record LPInfo =
  info_pool_address :: string
  info_lp_mint :: string
  token_reserve :: rat
  wxnt_reserve :: rat
  price_in_wxnt :: rat
  liquidity_wxnt :: rat
  pool_authority :: string

text \<open>\<^verbatim>\<open>analyzer.RiskLevel\<close>.\<close>

datatype RiskLevel = SAFE | MEDIUM | HIGH | CRITICAL

section \<open>Risk scoring (\<^verbatim>\<open>TokenAnalyzer.analyze\<close>, scoring step)\<close>

text \<open>
  The warning and positive strings of the report. The numbers that the code
  formats into the text (\<^verbatim>\<open>f"{x:.1f}"\<close>) are carried unformatted.
\<close>

datatype finding =
    MintAuthorityActive
  | MintAuthorityRevoked
  | FreezeAuthorityActive
  | FreezeAuthorityRevoked
  | TopHolderVeryHigh rat
  | TopHolderModerate rat
  | TopHolderAt rat
  | Top10Hold rat
  | LPBurnsDetected rat
  | SomeLPBurns rat
  | LPSafetyBelow90 rat
  | LPSafetyBelow50 rat
  | LPNotBurned
  | NoLPFound
  | LowLiquidityUSD rat
  | LowLiquidityXNT rat

text \<open>The three local variables the scoring step mutates.\<close>

record scoring =
  risk_score :: int
  warnings :: "finding list"
  positives :: "finding list"

definition scoring_init :: scoring where
  "scoring_init = \<lparr>risk_score = 0, warnings = [], positives = []\<rparr>"

definition warn :: "int \<Rightarrow> finding \<Rightarrow> scoring \<Rightarrow> scoring" where
  "warn pts w s = s\<lparr>risk_score := risk_score s + pts, warnings := warnings s @ [w]\<rparr>"

definition praise :: "finding \<Rightarrow> scoring \<Rightarrow> scoring" where
  "praise p s = s\<lparr>positives := positives s @ [p]\<rparr>"

definition score_mint_authority :: "TokenInfo \<Rightarrow> scoring \<Rightarrow> scoring" where
  "score_mint_authority token_info s =
     (if truthy (mint_authority token_info) then warn 25 MintAuthorityActive s
      else praise MintAuthorityRevoked s)"

definition score_freeze_authority :: "TokenInfo \<Rightarrow> scoring \<Rightarrow> scoring" where
  "score_freeze_authority token_info s =
     (if truthy (freeze_authority token_info) then warn 25 FreezeAuthorityActive s
      else praise FreezeAuthorityRevoked s)"

definition score_top_holder :: "rat \<Rightarrow> scoring \<Rightarrow> scoring" where
  "score_top_holder top_holder_pct s =
     (if top_holder_pct > 50 then warn 20 (TopHolderVeryHigh top_holder_pct) s
      else if top_holder_pct > 20 then warn 10 (TopHolderModerate top_holder_pct) s
      else if top_holder_pct > 10 then warn 5 (TopHolderAt top_holder_pct) s
      else s)"

definition score_top_10 :: "rat \<Rightarrow> scoring \<Rightarrow> scoring" where
  "score_top_10 top_10_pct s =
     (if top_10_pct > 80 then warn 5 (Top10Hold top_10_pct) s else s)"

definition score_lp_burn :: "bool \<Rightarrow> rat \<Rightarrow> scoring \<Rightarrow> scoring" where
  "score_lp_burn lp_found lp_burn_pct s =
     (if lp_found then
        (if lp_burn_pct \<ge> 90 then praise (LPBurnsDetected lp_burn_pct) s
         else if lp_burn_pct \<ge> 50 then
           warn 5 (LPSafetyBelow90 lp_burn_pct) (praise (SomeLPBurns lp_burn_pct) s)
         else if lp_burn_pct > 0 then warn 10 (LPSafetyBelow50 lp_burn_pct) s
         else warn 15 LPNotBurned s)
      else warn 15 NoLPFound s)"

definition score_liquidity :: "rat \<Rightarrow> rat \<Rightarrow> scoring \<Rightarrow> scoring" where
  "score_liquidity liquidity_usd liquidity_xn s =
     (if liquidity_usd > 0 \<and> liquidity_usd < 5000 then
        warn 5 (LowLiquidityUSD liquidity_usd) s
      else if liquidity_usd = 0 \<and> liquidity_xn > 0 \<and> liquidity_xn < 2000 then
        warn 5 (LowLiquidityXNT liquidity_xn) s
      else s)"

definition risk_level_of :: "int \<Rightarrow> RiskLevel" where
  "risk_level_of score =
     (if score \<ge> 75 then CRITICAL
      else if score \<ge> 50 then HIGH
      else if score \<ge> 25 then MEDIUM
      else SAFE)"

text \<open>
  The inputs of the scoring step as \<^verbatim>\<open>analyze\<close> has them in scope: the decoded mint,
  the holder statistics, the two keys read from the LP status dictionary, the
  optional \<^verbatim>\<open>LPInfo\<close> and the XNT/USD rate.
\<close>

record scoring_input =
  si_token_info :: TokenInfo
  si_top_holder_percent :: rat
  si_top_10_percent :: rat
  si_status_lp_found :: bool
  si_total_burn_percent :: rat
  si_lp_info :: "LPInfo option"
  si_xnt_usd_rate :: rat

definition liquidity_xn_of :: "scoring_input \<Rightarrow> rat" where
  "liquidity_xn_of i = (case si_lp_info i of Some l \<Rightarrow> liquidity_wxnt l | None \<Rightarrow> 0)"

definition liquidity_usd_of :: "scoring_input \<Rightarrow> rat" where
  "liquidity_usd_of i =
     (if si_xnt_usd_rate i > 0 then liquidity_xn_of i * si_xnt_usd_rate i else 0)"

definition lp_found_of :: "scoring_input \<Rightarrow> bool" where
  "lp_found_of i = (si_status_lp_found i \<or> si_lp_info i \<noteq> None)"

definition run_scoring :: "scoring_input \<Rightarrow> scoring" where
  "run_scoring i =
     score_liquidity (liquidity_usd_of i) (liquidity_xn_of i)
       (score_lp_burn (lp_found_of i) (si_total_burn_percent i)
         (score_top_10 (si_top_10_percent i)
           (score_top_holder (si_top_holder_percent i)
             (score_freeze_authority (si_token_info i)
               (score_mint_authority (si_token_info i) scoring_init)))))"

text \<open>The two fields of the report that the scoring step decides.\<close>

definition report_risk_score :: "scoring_input \<Rightarrow> int" where
  "report_risk_score i = min 100 (risk_score (run_scoring i))"

definition report_risk_level :: "scoring_input \<Rightarrow> RiskLevel" where
  "report_risk_level i = risk_level_of (risk_score (run_scoring i))"

section \<open>Mint account decoding (\<^verbatim>\<open>X1RPC.get_token_info\<close>)\<close>

text \<open>
  Reads of the byte buffer are modelled with their failure: \<^verbatim>\<open>raw[a:b]\<close> never
  fails and returns the bytes that exist, \<^verbatim>\<open>raw[i]\<close> raises \<^verbatim>\<open>IndexError\<close> past the
  end, \<^verbatim>\<open>struct.unpack("<I", b)\<close> and \<^verbatim>\<open>struct.unpack("<Q", b)\<close> raise \<^verbatim>\<open>struct.error\<close>
  unless \<^verbatim>\<open>b\<close> has exactly 4 and 8 bytes.
\<close>

definition slice :: "nat \<Rightarrow> nat \<Rightarrow> 'a list \<Rightarrow> 'a list" where
  "slice a b xs = take (b - a) (drop a xs)"

definition index_byte :: "byte list \<Rightarrow> nat \<Rightarrow> exn + byte" where
  "index_byte raw i = (if i < length raw then Inr (raw ! i) else Inl Exn)"

fun le_value :: "byte list \<Rightarrow> nat" where
  "le_value [] = 0"
| "le_value (b # bs) = unat b + 256 * le_value bs"

definition unpack_u32 :: "byte list \<Rightarrow> exn + nat" where
  "unpack_u32 bs = (if length bs = 4 then Inr (le_value bs) else Inl Exn)"

definition unpack_u64 :: "byte list \<Rightarrow> exn + nat" where
  "unpack_u64 bs = (if length bs = 8 then Inr (le_value bs) else Inl Exn)"

text \<open>
  The body of the \<^verbatim>\<open>try\<close> block of \<^verbatim>\<open>get_token_info\<close>, in the order of the source.
  \<open>b58encode\<close> is \<^verbatim>\<open>base58.b58encode(...).decode()\<close>.
\<close>

definition parse_mint_fields ::
  "(byte list \<Rightarrow> string) \<Rightarrow> string \<Rightarrow> byte list \<Rightarrow> exn + TokenInfo" where
  "parse_mint_fields b58encode addr raw_data =
     (case unpack_u32 (slice 0 4 raw_data) of Inl e \<Rightarrow> Inl e | Inr mint_auth_option \<Rightarrow>
      let mint_auth = (if mint_auth_option = 1 then Some (b58encode (slice 4 36 raw_data)) else None) in
      case unpack_u64 (slice 36 44 raw_data) of Inl e \<Rightarrow> Inl e | Inr supply_val \<Rightarrow>
      case index_byte raw_data 44 of Inl e \<Rightarrow> Inl e | Inr dec \<Rightarrow>
      case index_byte raw_data 45 of Inl e \<Rightarrow> Inl e | Inr ini \<Rightarrow>
      case unpack_u32 (slice 46 50 raw_data) of Inl e \<Rightarrow> Inl e | Inr freeze_auth_option \<Rightarrow>
      let freeze_auth = (if freeze_auth_option = 1 then Some (b58encode (slice 50 82 raw_data)) else None) in
      Inr \<lparr>mint_address = addr, decimals = unat dec, raw_supply = supply_val,
           mint_authority = mint_auth, freeze_authority = freeze_auth,
           is_initialized = (ini = 1)\<rparr>)"

text \<open>
  The decoder proper: the length guard, then the \<^verbatim>\<open>try\<close> block whose handler
  returns \<^verbatim>\<open>None\<close>. The two ways of producing no mint state are kept apart.
\<close>

datatype decode_failure = TooShort | ParseRaised

definition decode_mint_result ::
  "(byte list \<Rightarrow> string) \<Rightarrow> string \<Rightarrow> byte list \<Rightarrow> decode_failure + TokenInfo" where
  "decode_mint_result b58encode addr raw_data =
     (if length raw_data < 82 then Inl TooShort
      else case parse_mint_fields b58encode addr raw_data of
             Inl e \<Rightarrow> Inl ParseRaised
           | Inr t \<Rightarrow> Inr t)"

definition decode_mint ::
  "(byte list \<Rightarrow> string) \<Rightarrow> string \<Rightarrow> byte list \<Rightarrow> TokenInfo option" where
  "decode_mint b58encode addr raw_data =
     (case decode_mint_result b58encode addr raw_data of Inl f \<Rightarrow> None | Inr t \<Rightarrow> Some t)"

text \<open>The fixed-offset layout, written with unchecked reads, for comparison.\<close>

definition mint_layout ::
  "(byte list \<Rightarrow> string) \<Rightarrow> string \<Rightarrow> byte list \<Rightarrow> TokenInfo" where
  "mint_layout b58encode addr raw_data =
     \<lparr>mint_address = addr,
      decimals = unat (raw_data ! 44),
      raw_supply = le_value (slice 36 44 raw_data),
      mint_authority =
        (if le_value (slice 0 4 raw_data) = 1 then Some (b58encode (slice 4 36 raw_data)) else None),
      freeze_authority =
        (if le_value (slice 46 50 raw_data) = 1 then Some (b58encode (slice 50 82 raw_data)) else None),
      is_initialized = (raw_data ! 45 = 1)\<rparr>"

section \<open>Holder analysis (\<^verbatim>\<open>HolderAnalyzer.analyze_holders\<close>)\<close>

text \<open>Python's \<^verbatim>\<open>/\<close>: \<^verbatim>\<open>ZeroDivisionError\<close> on a zero divisor.\<close>

definition py_div :: "rat \<Rightarrow> rat \<Rightarrow> exn + rat" where
  "py_div a b = (if b = 0 then Inl Exn else Inr (a / b))"

text \<open>
  An entry of the \<^verbatim>\<open>getTokenLargestAccounts\<close> answer: \<^verbatim>\<open>amount\<close> after \<^verbatim>\<open>int(...)\<close>,
  \<^verbatim>\<open>uiAmount\<close> and \<^verbatim>\<open>address\<close>.
\<close>

record largest_account =
  la_amount :: int
  la_ui_amount :: "rat option"
  la_address :: string

text \<open>An entry of \<^verbatim>\<open>top_holders\<close> and the dictionary \<^verbatim>\<open>analyze_holders\<close> returns.\<close>

record holder_entry =
  rank :: nat
  address :: string
  amount :: "rat option"
  percent :: rat

record holder_data =
  top_holders :: "holder_entry list"
  top_holder_percent :: rat
  top_10_percent :: rat
  holder_count :: nat

definition holder_data_default :: holder_data where
  "holder_data_default =
     \<lparr>top_holders = [], top_holder_percent = 0, top_10_percent = 0, holder_count = 0\<rparr>"

text \<open>\<^verbatim>\<open>get_token_largest_accounts\<close>: the answer cut to \<open>limit\<close>, the empty list on any failure.\<close>

definition get_token_largest_accounts ::
  "(exn + largest_account list) \<Rightarrow> nat \<Rightarrow> largest_account list" where
  "get_token_largest_accounts rpc_answer limit =
     (case rpc_answer of Inl e \<Rightarrow> [] | Inr v \<Rightarrow> take limit v)"

text \<open>The state of the \<^verbatim>\<open>for i, holder in enumerate(largest)\<close> loop.\<close>

record holders_state =
  total_in_top_10 :: int
  holders :: "holder_entry list"
  first_percent :: rat

definition percent_of :: "int \<Rightarrow> nat \<Rightarrow> exn + rat" where
  "percent_of amt total_supply =
     (if total_supply > 0 then
        (case py_div (of_int amt) (of_nat total_supply) of
           Inl e \<Rightarrow> Inl e | Inr q \<Rightarrow> Inr (q * 100))
      else Inr 0)"

fun holders_loop ::
  "nat \<Rightarrow> nat \<Rightarrow> largest_account list \<Rightarrow> holders_state \<Rightarrow> exn + holders_state" where
  "holders_loop total_supply i [] st = Inr st"
| "holders_loop total_supply i (holder # rest) st =
     (case percent_of (la_amount holder) total_supply of
        Inl e \<Rightarrow> Inl e
      | Inr pct \<Rightarrow>
          let st1 = st\<lparr>holders := holders st @
                        [\<lparr>rank = i + 1, address = la_address holder,
                          amount = la_ui_amount holder, percent = pct\<rparr>]\<rparr>;
              st2 = (if i < 10 then st1\<lparr>total_in_top_10 := total_in_top_10 st1 + la_amount holder\<rparr>
                     else st1);
              st3 = (if i = 0 then st2\<lparr>first_percent := pct\<rparr> else st2)
          in holders_loop total_supply (i + 1) rest st3)"

definition analyze_holders ::
  "(exn + largest_account list) \<Rightarrow> nat \<Rightarrow> exn + holder_data" where
  "analyze_holders rpc_answer total_supply =
     (let largest = get_token_largest_accounts rpc_answer 20 in
      if largest = [] \<or> total_supply = 0 then Inr holder_data_default
      else
        case holders_loop total_supply 0 largest
               \<lparr>total_in_top_10 = 0, holders = [], first_percent = 0\<rparr> of
          Inl e \<Rightarrow> Inl e
        | Inr st \<Rightarrow>
            (case percent_of (total_in_top_10 st) total_supply of
               Inl e \<Rightarrow> Inl e
             | Inr top10 \<Rightarrow>
                 Inr \<lparr>top_holders = holders st,
                      top_holder_percent = first_percent st,
                      top_10_percent = top10,
                      holder_count = length (holders st)\<rparr>))"

section \<open>Answers of the chain\<close>

text \<open>
  Payloads are typed as the JSON-RPC schema gives them; a call as a whole may
  raise (transport failure, error envelope).
\<close>

text \<open>
  A parsed instruction of a \<^verbatim>\<open>jsonParsed\<close> transaction: \<^verbatim>\<open>parsed["type"]\<close>,
  \<^verbatim>\<open>info["mint"]\<close> (\<^verbatim>\<open>""\<close> when absent), \<^verbatim>\<open>info["tokenAmount"]["uiAmount"]\<close> when
  \<^verbatim>\<open>info\<close> has a non-empty \<^verbatim>\<open>tokenAmount\<close> (a null \<^verbatim>\<open>uiAmount\<close> reads as 0), and
  \<^verbatim>\<open>int(info["amount"])\<close> (0 when absent). An instruction whose \<^verbatim>\<open>parsed\<close> is
  not a dictionary is \<open>None\<close>.
\<close>

record parsed_instruction =
  ix_type :: string
  ix_mint :: string
  ix_token_amount :: "rat option"
  ix_amount :: int

type_synonym instruction = "parsed_instruction option"

record transaction =
  instructions :: "instruction list"
  inner_instructions :: "instruction list list"

record sig_info =
  signature :: "string option"

text \<open>An entry of a \<^verbatim>\<open>getProgramAccounts\<close> answer: \<^verbatim>\<open>pubkey\<close> and \<^verbatim>\<open>account.data[0]\<close>.\<close>

record program_account =
  pubkey :: string
  account_data :: "string option"

text \<open>
  A token account of the incinerator for an LP mint: \<^verbatim>\<open>pubkey\<close> and
  \<^verbatim>\<open>float(uiAmount or 0)\<close>.
\<close>

record incinerator_account =
  ia_pubkey :: string
  ia_ui_amount :: rat

section \<open>LP status (\<^verbatim>\<open>X1RPC.check_lp_status\<close>): data\<close>

text \<open>
  The dictionary built for each pool. \<open>burn_percent_of_total\<close> is the key added
  after aggregation: \<open>None\<close> while the key is absent.
\<close>

record pool_info =
  pool_address :: string
  lp_mint :: "string option"
  lp_supply :: rat
  lp_original_supply :: rat
  burned_amount :: rat
  burn_percent :: rat
  burn_tx_count :: nat
  burn_account :: "string option"
  burn_method :: "string option"
  pair_label :: string
  burn_percent_of_total :: "rat option"

text \<open>
  The result dictionary. Its keys \<^verbatim>\<open>lp_mint\<close> and \<^verbatim>\<open>burn_tx_count\<close> are named
  \<open>res_lp_mint\<close> and \<open>res_burn_tx_count\<close> here, apart from the keys of the same
  name of a pool.
\<close>

record lp_result =
  lp_found :: bool
  lp_burned :: bool
  lp_burn_percent :: rat
  lp_address :: "string option"
  res_lp_mint :: "string option"
  lp_total_supply :: rat
  lp_burned_amount :: rat
  pools :: "pool_info list"
  total_lp_supply_all_pools :: rat
  total_burned_all_pools :: rat
  total_burn_percent :: rat
  res_burn_tx_count :: nat

definition result_default :: lp_result where
  "result_default =
     \<lparr>lp_found = False, lp_burned = False, lp_burn_percent = 0, lp_address = None,
      res_lp_mint = None, lp_total_supply = 0, lp_burned_amount = 0, pools = [],
      total_lp_supply_all_pools = 0, total_burned_all_pools = 0,
      total_burn_percent = 0, res_burn_tx_count = 0\<rparr>"

text \<open>
  The chain as \<^verbatim>\<open>check_lp_status\<close> sees it, for one token mint.
  \<^item> \<open>lp_status_cache\<close>: \<^verbatim>\<open>get_cached_lp_status\<close>, which absorbs its own failures.
  \<^item> \<open>program_accounts\<close>: \<^verbatim>\<open>getProgramAccounts\<close> of the AMM program with a
    \<^verbatim>\<open>memcmp\<close> filter for the mint at the given offset.
  \<^item> \<open>account_is_mint\<close>: \<^verbatim>\<open>getAccountInfo\<close> (\<^verbatim>\<open>jsonParsed\<close>) of a candidate, reduced to
    the test made on it: a value is present and its parsed type is \<^verbatim>\<open>"mint"\<close>.
  \<^item> \<open>mint_supply_info\<close>: the second \<^verbatim>\<open>getAccountInfo\<close> of the LP mint: \<open>None\<close> without
    a value, else \<^verbatim>\<open>int(supply)\<close> and \<^verbatim>\<open>decimals\<close>.
  \<^item> \<open>initial_lp_supply\<close>, \<open>total_lp_minted\<close>, \<open>identify_pool_pair\<close>: the results of
    \<^verbatim>\<open>_get_initial_lp_supply\<close>, \<^verbatim>\<open>_get_total_lp_minted\<close> and \<^verbatim>\<open>_identify_pool_pair\<close>,
    each of which returns a value on every path (its outermost handler catches
    everything).
  \<^item> \<open>incinerator_accounts\<close>: \<^verbatim>\<open>getTokenAccountsByOwner\<close> of the incinerator for an
    LP mint.
  \<^item> \<open>signatures_for\<close>: \<^verbatim>\<open>getSignaturesForAddress\<close> with a limit.
  \<^item> \<open>get_transaction\<close>: \<^verbatim>\<open>getTransaction\<close>; \<open>None\<close> for a null answer.
\<close>

record chain =
  b58encode :: "byte list \<Rightarrow> string"
  b64decode :: "string \<Rightarrow> exn + byte list"
  lp_status_cache :: "string \<Rightarrow> lp_result option"
  program_accounts :: "string \<Rightarrow> nat \<Rightarrow> exn + program_account list"
  account_is_mint :: "string \<Rightarrow> exn + bool"
  mint_supply_info :: "string \<Rightarrow> exn + (int \<times> nat) option"
  initial_lp_supply :: "string \<Rightarrow> nat \<Rightarrow> rat"
  total_lp_minted :: "string \<Rightarrow> nat \<Rightarrow> rat"
  identify_pool_pair :: "string \<Rightarrow> string \<Rightarrow> byte list \<Rightarrow> string option \<Rightarrow> string"
  incinerator_accounts :: "string \<Rightarrow> exn + incinerator_account list"
  signatures_for :: "string \<Rightarrow> nat \<Rightarrow> exn + sig_info list"
  get_transaction :: "string \<Rightarrow> exn + transaction option"

section \<open>Burn-instruction detection (\<^verbatim>\<open>X1RPC._check_burn_checked\<close>)\<close>

definition all_instructions :: "transaction \<Rightarrow> instruction list" where
  "all_instructions tx = instructions tx @ concat (inner_instructions tx)"

text \<open>
  One turn of \<^verbatim>\<open>for ix in all_instructions\<close> on the pair
  \<^verbatim>\<open>(total_burned, burn_tx_count)\<close>.
\<close>

definition burn_step ::
  "string \<Rightarrow> nat \<Rightarrow> instruction \<Rightarrow> rat \<times> nat \<Rightarrow> rat \<times> nat" where
  "burn_step lp decs ix acc =
     (case ix of
        None \<Rightarrow> acc
      | Some parsed \<Rightarrow>
          if ix_type parsed = ''burn'' \<or> ix_type parsed = ''burnChecked'' then
            (if ix_mint parsed = lp \<or> ix_type parsed = ''burn'' then
               (let amt = (case ix_token_amount parsed of
                             Some ui \<Rightarrow> ui
                           | None \<Rightarrow>
                               if ix_amount parsed > 0
                               then of_int (ix_amount parsed) / 10 ^ decs else 0)
                in if amt > 0 then (fst acc + amt, snd acc + 1) else acc)
             else acc)
          else acc)"

text \<open>\<^verbatim>\<open>for sig_info in sigs\<close>; a failing \<^verbatim>\<open>getTransaction\<close> skips the signature.\<close>

fun burn_scan ::
  "chain \<Rightarrow> string \<Rightarrow> nat \<Rightarrow> sig_info list \<Rightarrow> rat \<times> nat \<Rightarrow> rat \<times> nat" where
  "burn_scan env lp decs [] acc = acc"
| "burn_scan env lp decs (s # rest) acc =
     (case signature s of
        None \<Rightarrow> burn_scan env lp decs rest acc
      | Some sg \<Rightarrow>
          if sg = [] then burn_scan env lp decs rest acc
          else
            (case get_transaction env sg of
               Inl e \<Rightarrow> burn_scan env lp decs rest acc
             | Inr None \<Rightarrow> burn_scan env lp decs rest acc
             | Inr (Some tx) \<Rightarrow>
                 burn_scan env lp decs rest
                   (fold (burn_step lp decs) (all_instructions tx) acc)))"

definition check_burn_checked :: "chain \<Rightarrow> string \<Rightarrow> nat \<Rightarrow> rat \<times> nat" where
  "check_burn_checked env lp decs =
     (case signatures_for env lp 50 of
        Inl e \<Rightarrow> (0, 0)
      | Inr sigs \<Rightarrow> if sigs = [] then (0, 0) else burn_scan env lp decs sigs (0, 0))"

section \<open>LP status (\<^verbatim>\<open>X1RPC.check_lp_status\<close>): pool discovery\<close>

definition TOKEN_PROGRAM :: string where
  "TOKEN_PROGRAM = ''TokenkegQfeZyiNwAJbNbGKPFXCWuBvf9Ss623VQ5DA''"

definition TOKEN_2022_PROGRAM :: string where
  "TOKEN_2022_PROGRAM = ''TokenzQdBNbLqP5VEhdkAS6EPFLC1PHnBqCXEpPxuEb''"

definition AMM_PROGRAM :: string where
  "AMM_PROGRAM = ''sEsYH97wqmfnkzHedjNcw3zyJdPvUmsa9AixhS4b4fN''"

definition WXNT_MINT :: string where
  "WXNT_MINT = ''So11111111111111111111111111111111111111112''"

definition search_offsets :: "nat list" where
  "search_offsets = [200, 232, 264, 168, 296, 328]"

text \<open>A discovered pool: the dictionary with keys \<^verbatim>\<open>address\<close> and \<^verbatim>\<open>data\<close>.\<close>

record pool_candidate =
  pc_address :: string
  pc_data :: "string option"

text \<open>\<^verbatim>\<open>for acc in pool_result\<close>: pools are deduplicated by address.\<close>

fun add_accounts :: "program_account list \<Rightarrow> pool_candidate list \<Rightarrow> pool_candidate list" where
  "add_accounts [] found = found"
| "add_accounts (acc # rest) found =
     (if pubkey acc \<noteq> [] \<and> pubkey acc \<notin> set (map pc_address found)
      then add_accounts rest
             (found @ [\<lparr>pc_address = pubkey acc, pc_data = account_data acc\<rparr>])
      else add_accounts rest found)"

text \<open>\<^verbatim>\<open>for offset in search_offsets\<close>: a failing query skips the offset.\<close>

fun discover :: "chain \<Rightarrow> string \<Rightarrow> nat list \<Rightarrow> pool_candidate list \<Rightarrow> pool_candidate list" where
  "discover env mint [] found = found"
| "discover env mint (off # rest) found =
     (case program_accounts env mint off of
        Inl e \<Rightarrow> discover env mint rest found
      | Inr accs \<Rightarrow> discover env mint rest (add_accounts accs found))"

section \<open>LP status: one pool\<close>

definition lp_offsets :: "nat list" where
  "lp_offsets = [136, 104, 72, 168, 200, 232, 264, 296, 328, 40, 8]"

definition SKIP_MINTS :: "string \<Rightarrow> string set" where
  "SKIP_MINTS mint = {mint, WXNT_MINT, TOKEN_PROGRAM, TOKEN_2022_PROGRAM, AMM_PROGRAM}"

text \<open>
  \<^verbatim>\<open>for lp_offset in [...]\<close>: the first candidate that verifies as a mint; a failing
  verification skips the candidate.
\<close>

fun find_lp_mint :: "chain \<Rightarrow> string \<Rightarrow> byte list \<Rightarrow> nat list \<Rightarrow> string option" where
  "find_lp_mint env mint raw_data [] = None"
| "find_lp_mint env mint raw_data (lp_offset # rest) =
     (if lp_offset + 32 > length raw_data then find_lp_mint env mint raw_data rest
      else
        let potential_mint = slice lp_offset (lp_offset + 32) raw_data in
        if list_all (\<lambda>b. b = 0) potential_mint then find_lp_mint env mint raw_data rest
        else
          let candidate = b58encode env potential_mint in
          if candidate \<in> SKIP_MINTS mint then find_lp_mint env mint raw_data rest
          else
            (case account_is_mint env candidate of
               Inl e \<Rightarrow> find_lp_mint env mint raw_data rest
             | Inr ok \<Rightarrow>
                 if ok then Some candidate else find_lp_mint env mint raw_data rest))"

text \<open>
  The incinerator loop on \<^verbatim>\<open>(incinerator_amount, incinerator_txs, burn_account)\<close>.
  For an account with a positive balance the count of signatures replaces the
  count so far when the query answers a non-empty list, and is 1 when it raises.
\<close>

fun incinerator_loop ::
  "chain \<Rightarrow> incinerator_account list \<Rightarrow> rat \<times> nat \<times> string option \<Rightarrow> rat \<times> nat \<times> string option" where
  "incinerator_loop env [] st = st"
| "incinerator_loop env (tok # rest) (amt, txs, acct) =
     (if ia_ui_amount tok > 0 then
        incinerator_loop env rest
          (amt + ia_ui_amount tok,
           (case signatures_for env (ia_pubkey tok) 20 of
              Inl e \<Rightarrow> 1
            | Inr sigs \<Rightarrow> if sigs \<noteq> [] then length sigs else txs),
           Some (ia_pubkey tok))
      else incinerator_loop env rest (amt, txs, acct))"

definition burn_method_of :: "rat \<Rightarrow> rat \<Rightarrow> string option" where
  "burn_method_of incinerator_amount bc_burned =
     (if incinerator_amount > 0 \<and> bc_burned > 0 then Some ''Both''
      else if incinerator_amount > 0 then Some ''incinerator''
      else if bc_burned > 0 then Some ''BurnChecked''
      else None)"

text \<open>
  The adaptive formula: the pair \<^verbatim>\<open>(burned_amount, original_supply_for_pool)\<close>.
  \<^verbatim>\<open>_get_total_lp_minted\<close> is called in the second case only.
\<close>

definition reconcile ::
  "chain \<Rightarrow> string \<Rightarrow> nat \<Rightarrow> rat \<Rightarrow> rat \<Rightarrow> rat \<Rightarrow> rat \<Rightarrow> rat \<times> rat" where
  "reconcile env lp decs initial_supply supply_ui incinerator_amount bc_burned =
     (if initial_supply > 0 \<and> initial_supply \<ge> supply_ui then
        (let supply_diff = initial_supply - supply_ui
         in (supply_diff + incinerator_amount,
             if incinerator_amount > 0 then initial_supply + incinerator_amount
             else initial_supply))
      else if incinerator_amount > 0 \<or> bc_burned > 0 then
        (let total_minted = total_lp_minted env lp decs
         in if total_minted > 0 then (incinerator_amount + bc_burned, total_minted)
            else (incinerator_amount + bc_burned,
                  supply_ui + bc_burned + incinerator_amount))
      else
        (0, if supply_ui > 0 then supply_ui
            else if initial_supply > 0 then initial_supply else 1))"

text \<open>\<^verbatim>\<open>(a / b * 100) if b > 0 else 0\<close>, with the division that can raise.\<close>

definition pct_if_positive :: "rat \<Rightarrow> rat \<Rightarrow> exn + rat" where
  "pct_if_positive a b =
     (if b > 0 then (case py_div a b of Inl e \<Rightarrow> Inl e | Inr q \<Rightarrow> Inr (q * 100))
      else Inr 0)"

text \<open>The accumulators of \<^verbatim>\<open>for pool in pools\<close>.\<close>

record pools_state =
  pool_details :: "pool_info list"
  total_lp_supply :: rat
  total_current_supply :: rat
  total_burned :: rat
  total_burn_txs :: nat

definition pools_state_init :: pools_state where
  "pools_state_init =
     \<lparr>pool_details = [], total_lp_supply = 0, total_current_supply = 0,
      total_burned = 0, total_burn_txs = 0\<rparr>"

text \<open>The entry of a pool whose LP mint was not found.\<close>

definition no_lp_entry :: "chain \<Rightarrow> string \<Rightarrow> pool_candidate \<Rightarrow> byte list \<Rightarrow> pool_info" where
  "no_lp_entry env mint pool raw_data =
     \<lparr>pool_address = pc_address pool, lp_mint = None, lp_supply = 0,
      lp_original_supply = 0, burned_amount = 0, burn_percent = 0, burn_tx_count = 0,
      burn_account = None, burn_method = None,
      pair_label = identify_pool_pair env (pc_address pool) mint raw_data None,
      burn_percent_of_total = None\<rparr>"

text \<open>
  The part of the loop body after the LP mint \<open>lp\<close> is known. \<open>Inl\<close> is an exception
  on its way to the handler of the loop body; \<open>Inr\<close> carries the accumulators
  after the body, unchanged where the source says \<^verbatim>\<open>continue\<close>.
\<close>

definition pool_with_lp ::
  "chain \<Rightarrow> string \<Rightarrow> pool_candidate \<Rightarrow> byte list \<Rightarrow> string \<Rightarrow> pools_state \<Rightarrow> exn + pools_state" where
  "pool_with_lp env mint pool raw_data lp st =
     (case mint_supply_info env lp of
        Inl e \<Rightarrow> Inl e
      | Inr None \<Rightarrow> Inr st
      | Inr (Some (sup_raw, decs)) \<Rightarrow>
          let supply_ui = of_int sup_raw / 10 ^ decs;
              initial_supply = initial_lp_supply env lp decs
          in
          (case incinerator_accounts env lp of
             Inl e \<Rightarrow> Inl e
           | Inr toks \<Rightarrow>
               (case incinerator_loop env toks (0, 0, None) of
                  (incinerator_amount, incinerator_txs, burn_acct) \<Rightarrow>
               (case check_burn_checked env lp decs of
                  (bc_burned, bc_tx_count) \<Rightarrow>
               (case reconcile env lp decs initial_supply supply_ui incinerator_amount bc_burned of
                  (burned, original_supply_for_pool) \<Rightarrow>
               (case pct_if_positive burned original_supply_for_pool of
                  Inl e \<Rightarrow> Inl e
                | Inr burn_pct \<Rightarrow>
                    let label = identify_pool_pair env (pc_address pool) mint raw_data (Some lp) in
                    if original_supply_for_pool = 0 then Inr st
                    else if list_ex (\<lambda>p. lp_mint p = Some lp) (pool_details st) then Inr st
                    else
                      Inr \<lparr>pool_details = pool_details st @
                             [\<lparr>pool_address = pc_address pool, lp_mint = Some lp,
                               lp_supply = supply_ui,
                               lp_original_supply = original_supply_for_pool,
                               burned_amount = burned,
                               burn_percent = min 100 burn_pct,
                               burn_tx_count = incinerator_txs + bc_tx_count,
                               burn_account = burn_acct,
                               burn_method = burn_method_of incinerator_amount bc_burned,
                               pair_label = label,
                               burn_percent_of_total = None\<rparr>],
                           total_lp_supply = total_lp_supply st + original_supply_for_pool,
                           total_current_supply = total_current_supply st + supply_ui,
                           total_burned = total_burned st + burned,
                           total_burn_txs = total_burn_txs st + (incinerator_txs + bc_tx_count)\<rparr>))))))"

text \<open>The \<^verbatim>\<open>try\<close> block of the loop body.\<close>

definition pool_body :: "chain \<Rightarrow> string \<Rightarrow> pool_candidate \<Rightarrow> string \<Rightarrow> pools_state \<Rightarrow> exn + pools_state" where
  "pool_body env mint pool data st =
     (case b64decode env data of
        Inl e \<Rightarrow> Inl e
      | Inr raw_data \<Rightarrow>
          if length raw_data < 168 then Inr st
          else
            (case find_lp_mint env mint raw_data lp_offsets of
               None \<Rightarrow> Inr (st\<lparr>pool_details := pool_details st @ [no_lp_entry env mint pool raw_data]\<rparr>)
             | Some lp \<Rightarrow>
                 if lp = [] then
                   Inr (st\<lparr>pool_details := pool_details st @ [no_lp_entry env mint pool raw_data]\<rparr>)
                 else pool_with_lp env mint pool raw_data lp st))"

text \<open>One turn of \<^verbatim>\<open>for pool in pools\<close>: the handler of the body is \<^verbatim>\<open>continue\<close>.\<close>

definition pool_step :: "chain \<Rightarrow> string \<Rightarrow> pool_candidate \<Rightarrow> pools_state \<Rightarrow> pools_state" where
  "pool_step env mint pool st =
     (case pc_data pool of
        None \<Rightarrow> st
      | Some data \<Rightarrow>
          if data = [] then st
          else (case pool_body env mint pool data st of Inl e \<Rightarrow> st | Inr st' \<Rightarrow> st'))"

definition process_pools :: "chain \<Rightarrow> string \<Rightarrow> pool_candidate list \<Rightarrow> pools_state \<Rightarrow> pools_state" where
  "process_pools env mint found st = fold (pool_step env mint) found st"

section \<open>LP status: aggregation\<close>

text \<open>
  \<^verbatim>\<open>pool_details.sort(key=..., reverse=True)\<close>: a stable sort, descending by
  original supply.
\<close>

definition sort_pools :: "pool_info list \<Rightarrow> pool_info list" where
  "sort_pools ps = sort_key (\<lambda>p. - lp_original_supply p) ps"

fun set_percent_of_total :: "rat \<Rightarrow> pool_info list \<Rightarrow> exn + pool_info list" where
  "set_percent_of_total total_supply [] = Inr []"
| "set_percent_of_total total_supply (p # ps) =
     (case pct_if_positive (burned_amount p) total_supply of
        Inl e \<Rightarrow> Inl e
      | Inr q \<Rightarrow>
          (case set_percent_of_total total_supply ps of
             Inl e \<Rightarrow> Inl e
           | Inr ps' \<Rightarrow> Inr (p\<lparr>burn_percent_of_total := Some q\<rparr> # ps')))"

text \<open>
  The statements after the loop, for a non-empty \<^verbatim>\<open>pool_details\<close>. \<^verbatim>\<open>pool_details[0]\<close>
  raises on an empty list.
\<close>

definition aggregate :: "lp_result \<Rightarrow> pools_state \<Rightarrow> exn + lp_result" where
  "aggregate result st =
     (case sort_pools (pool_details st) of
        [] \<Rightarrow> Inl Exn
      | main_pool # others \<Rightarrow>
          (case pct_if_positive (total_burned st) (total_lp_supply st) of
             Inl e \<Rightarrow> Inl e
           | Inr overall_burn_pct \<Rightarrow>
               (case set_percent_of_total (total_lp_supply st) (main_pool # others) of
                  Inl e \<Rightarrow> Inl e
                | Inr ps \<Rightarrow>
                    Inr (result
                      \<lparr>pools := ps,
                       total_lp_supply_all_pools := total_lp_supply st,
                       total_burned_all_pools := total_burned st,
                       total_burn_percent := min 100 overall_burn_pct,
                       res_burn_tx_count := total_burn_txs st,
                       res_lp_mint := lp_mint main_pool,
                       lp_total_supply := lp_supply main_pool,
                       lp_burned_amount := burned_amount main_pool,
                       lp_burn_percent := burn_percent main_pool,
                       lp_address := Some (pool_address main_pool),
                       lp_burned := (total_burned st > 0)\<rparr>))))"

text \<open>
  The function after a cache miss. The handler of the outer \<^verbatim>\<open>try\<close> returns
  \<^verbatim>\<open>result\<close> as it stands: no key but \<^verbatim>\<open>lp_found\<close> is assigned before the last
  statement that can raise. The write of the result to the cache
  (\<^verbatim>\<open>set_cached_lp_status\<close>, which absorbs its own failures) does not change the
  value returned and is left out.
\<close>

definition compute_lp_status :: "chain \<Rightarrow> string \<Rightarrow> lp_result" where
  "compute_lp_status env mint =
     (let found = discover env mint search_offsets [] in
      if found = [] then result_default
      else
        let result = result_default\<lparr>lp_found := True\<rparr>;
            st = process_pools env mint found pools_state_init
        in if pool_details st = [] then result
           else (case aggregate result st of Inl e \<Rightarrow> result | Inr r \<Rightarrow> r))"

definition check_lp_status :: "chain \<Rightarrow> string \<Rightarrow> lp_result" where
  "check_lp_status env mint =
     (case lp_status_cache env mint of
        Some cached \<Rightarrow> cached
      | None \<Rightarrow> compute_lp_status env mint)"

section \<open>The entry point (\<^verbatim>\<open>TokenAnalyzer.analyze\<close>)\<close>

text \<open>The \<^verbatim>\<open>value\<close> of a \<^verbatim>\<open>getAccountInfo\<close> answer (\<^verbatim>\<open>base64\<close>): \<^verbatim>\<open>owner\<close> and \<^verbatim>\<open>data[0]\<close>.\<close>

record account_value =
  av_owner :: "string option"
  av_data :: "string option"

text \<open>\<^verbatim>\<open>blockchain.TokenMetadata\<close>.\<close>

record TokenMetadata =
  md_name :: string
  md_symbol :: string
  md_uri :: string
  seller_fee_basis_points :: int
  creators :: "string list"

text \<open>The dictionary \<^verbatim>\<open>get_lp_burn_tx\<close> returns.\<close>

record burn_tx =
  bt_tx_sig :: "string option"
  bt_burner :: "string option"
  bt_amount :: rat
  bt_burn_time :: string
  bt_burn_account :: string

text \<open>
  What \<^verbatim>\<open>analyze\<close> reads of the outside, for one mint address.
  \<^item> \<open>b58decode\<close>: \<^verbatim>\<open>base58.b58decode\<close>, which raises on text that is not base58.
  \<^item> \<open>account_info\<close>: the answer to the \<open>n\<close>-th \<^verbatim>\<open>getAccountInfo\<close> call (\<^verbatim>\<open>base64\<close>) that
    \<^verbatim>\<open>analyze\<close> makes for an address: call 0 is made by \<^verbatim>\<open>is_token_account\<close>, call 1 by
    \<^verbatim>\<open>get_token_info\<close>. \<open>None\<close> is an answer without a value.
  \<^item> \<open>largest_accounts\<close>: \<^verbatim>\<open>getTokenLargestAccounts\<close>.
  \<^item> \<open>on_chain\<close>: the chain as \<^verbatim>\<open>check_lp_status\<close> sees it.
  \<^item> the remaining fields are the results of the sub-analyses that the theory does
    not unfold (\<^verbatim>\<open>get_token_age\<close>, \<^verbatim>\<open>get_lp_info\<close>, \<^verbatim>\<open>get_accurate_holder_count\<close>,
    \<^verbatim>\<open>get_price_change_24h\<close>, \<^verbatim>\<open>get_xnt_usd_price\<close>, \<^verbatim>\<open>get_lp_burn_tx\<close>,
    \<^verbatim>\<open>get_24h_volume\<close>, \<^verbatim>\<open>get_token_metadata\<close>) and the loaded token list; each of
    these functions returns a value on every path, its outermost handler catching
    everything.
\<close>

record outside =
  b58decode :: "string \<Rightarrow> exn + byte list"
  account_info :: "nat \<Rightarrow> string \<Rightarrow> exn + account_value option"
  largest_accounts :: "string \<Rightarrow> exn + largest_account list"
  on_chain :: chain
  token_age :: "string \<Rightarrow> string option"
  lp_info_of :: "string \<Rightarrow> nat \<Rightarrow> LPInfo option"
  accurate_holder_count :: "string \<Rightarrow> nat"
  price_change_of :: "string \<Rightarrow> rat \<Rightarrow> rat option"
  xnt_usd_price :: rat
  lp_burn_tx_of :: "string \<Rightarrow> burn_tx option"
  volume_of :: "string \<Rightarrow> rat"
  token_metadata :: "string \<Rightarrow> TokenMetadata option"
  token_list :: "string \<Rightarrow> (string option \<times> string option) option"

definition is_valid_address :: "outside \<Rightarrow> string \<Rightarrow> bool" where
  "is_valid_address out addr =
     (case b58decode out addr of Inl e \<Rightarrow> False | Inr decoded \<Rightarrow> length decoded = 32)"

text \<open>\<^verbatim>\<open>get_account_info\<close>: \<^verbatim>\<open>None\<close> when the call raises.\<close>

definition get_account_info :: "outside \<Rightarrow> nat \<Rightarrow> string \<Rightarrow> account_value option" where
  "get_account_info out n addr =
     (case account_info out n addr of Inl e \<Rightarrow> None | Inr answer \<Rightarrow> answer)"

definition is_token_account :: "outside \<Rightarrow> string \<Rightarrow> bool" where
  "is_token_account out addr =
     (case get_account_info out 0 addr of
        None \<Rightarrow> False
      | Some v \<Rightarrow> av_owner v = Some TOKEN_PROGRAM \<or> av_owner v = Some TOKEN_2022_PROGRAM)"

definition get_token_info :: "outside \<Rightarrow> string \<Rightarrow> TokenInfo option" where
  "get_token_info out addr =
     (case get_account_info out 1 addr of
        None \<Rightarrow> None
      | Some v \<Rightarrow>
          (case av_data v of
             None \<Rightarrow> None
           | Some text \<Rightarrow>
               (case b64decode (on_chain out) text of
                  Inl e \<Rightarrow> None
                | Inr raw_data \<Rightarrow> decode_mint (b58encode (on_chain out)) addr raw_data)))"

text \<open>\<^verbatim>\<open>analyzer.SecurityReport\<close>; every field carries the prefix \<open>rep_\<close>.\<close>

record SecurityReport =
  rep_mint_address :: string
  rep_name :: "string option"
  rep_symbol :: "string option"
  rep_decimals :: nat
  rep_total_supply :: rat
  rep_raw_supply :: nat
  rep_mint_authority :: "string option"
  rep_mint_authority_enabled :: bool
  rep_freeze_authority :: "string option"
  rep_freeze_authority_enabled :: bool
  rep_top_holder_percent :: rat
  rep_top_10_percent :: rat
  rep_top_holders :: "holder_entry list"
  rep_holder_count :: nat
  rep_lp_found :: bool
  rep_lp_burned :: bool
  rep_lp_burn_percent :: rat
  rep_lp_address :: "string option"
  rep_lp_burn_tx :: "burn_tx option"
  rep_lp_total_supply :: rat
  rep_lp_burned_amount :: rat
  rep_lp_pools :: "pool_info list"
  rep_lp_total_burn_percent :: rat
  rep_lp_burn_tx_count :: nat
  rep_price_xn :: rat
  rep_price_usd :: rat
  rep_xnt_usd_rate :: rat
  rep_price_change_24h :: "rat option"
  rep_liquidity_xn :: rat
  rep_liquidity_usd :: rat
  rep_token_reserve :: rat
  rep_wxnt_reserve :: rat
  rep_volume_24h :: rat
  rep_volume_24h_usd :: rat
  rep_mcap_usd :: rat
  rep_age_str :: string
  rep_risk_level :: RiskLevel
  rep_risk_score :: int
  rep_warnings :: "finding list"
  rep_positives :: "finding list"

text \<open>Python's \<^verbatim>\<open>a or b\<close> on optional strings.\<close>

definition py_or :: "string option \<Rightarrow> string option \<Rightarrow> string option" where
  "py_or a b = (if truthy a then a else b)"

text \<open>
  The statements of \<^verbatim>\<open>analyze\<close> after \<^verbatim>\<open>token_info\<close> and \<^verbatim>\<open>holder_data\<close> are known.
\<close>

definition build_report :: "outside \<Rightarrow> string \<Rightarrow> TokenInfo \<Rightarrow> holder_data \<Rightarrow> SecurityReport" where
  "build_report out addr token_info holder_data0 =
     (let age0 = token_age out addr;
          lp_info = lp_info_of out addr (decimals token_info);
          accurate_count = accurate_holder_count out addr;
          current_price = (case lp_info of Some l \<Rightarrow> price_in_wxnt l | None \<Rightarrow> 0);
          price_change = (if current_price > 0 then price_change_of out addr current_price else None);
          xnt_usd_rate = xnt_usd_price out;
          price_usd = (if current_price > 0 \<and> xnt_usd_rate > 0 then current_price * xnt_usd_rate else 0);
          liquidity_xn = (case lp_info of Some l \<Rightarrow> liquidity_wxnt l | None \<Rightarrow> 0);
          liquidity_usd = (if xnt_usd_rate > 0 then liquidity_xn * xnt_usd_rate else 0);
          total_supply = of_nat (raw_supply token_info) / 10 ^ decimals token_info;
          mcap_usd = (if price_usd > 0 then price_usd * total_supply else 0);
          lp_status = check_lp_status (on_chain out) addr;
          lp_burn_tx =
            (if lp_burned lp_status \<and> truthy (res_lp_mint lp_status)
             then (case res_lp_mint lp_status of Some m \<Rightarrow> lp_burn_tx_of out m | None \<Rightarrow> None)
             else None);
          volume_24h = volume_of out addr;
          volume_24h_usd = (if xnt_usd_rate > 0 then volume_24h * xnt_usd_rate else 0);
          holder_data1 =
            (if accurate_count > 0 then holder_data0\<lparr>holder_count := accurate_count\<rparr>
             else holder_data0);
          metadata = token_metadata out addr;
          listed = token_list out addr;
          token_name =
            py_or (case metadata of
                     Some m \<Rightarrow> if md_name m \<noteq> [] then Some (md_name m) else None
                   | None \<Rightarrow> None)
                  (case listed of Some l \<Rightarrow> fst l | None \<Rightarrow> None);
          token_symbol =
            py_or (case metadata of
                     Some m \<Rightarrow> if md_symbol m \<noteq> [] then Some (md_symbol m) else None
                   | None \<Rightarrow> None)
                  (case listed of Some l \<Rightarrow> snd l | None \<Rightarrow> None);
          age_str = (case age0 of None \<Rightarrow> ''Unknown'' | Some a \<Rightarrow> if a = [] then ''Unknown'' else a);
          inp = \<lparr>si_token_info = token_info,
                 si_top_holder_percent = top_holder_percent holder_data1,
                 si_top_10_percent = top_10_percent holder_data1,
                 si_status_lp_found = lp_found lp_status,
                 si_total_burn_percent = total_burn_percent lp_status,
                 si_lp_info = lp_info,
                 si_xnt_usd_rate = xnt_usd_rate\<rparr>;
          scored = run_scoring inp
      in \<lparr>rep_mint_address = addr,
          rep_name = token_name,
          rep_symbol = token_symbol,
          rep_decimals = decimals token_info,
          rep_total_supply = total_supply,
          rep_raw_supply = raw_supply token_info,
          rep_mint_authority = mint_authority token_info,
          rep_mint_authority_enabled = (mint_authority token_info \<noteq> None),
          rep_freeze_authority = freeze_authority token_info,
          rep_freeze_authority_enabled = (freeze_authority token_info \<noteq> None),
          rep_top_holder_percent = top_holder_percent holder_data1,
          rep_top_10_percent = top_10_percent holder_data1,
          rep_top_holders = top_holders holder_data1,
          rep_holder_count = holder_count holder_data1,
          rep_lp_found = lp_found_of inp,
          rep_lp_burned = lp_burned lp_status,
          rep_lp_burn_percent = lp_burn_percent lp_status,
          rep_lp_address = lp_address lp_status,
          rep_lp_burn_tx = lp_burn_tx,
          rep_lp_total_supply = lp_total_supply lp_status,
          rep_lp_burned_amount = lp_burned_amount lp_status,
          rep_lp_pools = pools lp_status,
          rep_lp_total_burn_percent = total_burn_percent lp_status,
          rep_lp_burn_tx_count = res_burn_tx_count lp_status,
          rep_price_xn = current_price,
          rep_price_usd = price_usd,
          rep_xnt_usd_rate = xnt_usd_rate,
          rep_price_change_24h = price_change,
          rep_liquidity_xn = liquidity_xn,
          rep_liquidity_usd = liquidity_usd,
          rep_token_reserve = (case lp_info of Some l \<Rightarrow> token_reserve l | None \<Rightarrow> 0),
          rep_wxnt_reserve = (case lp_info of Some l \<Rightarrow> wxnt_reserve l | None \<Rightarrow> 0),
          rep_volume_24h = volume_24h,
          rep_volume_24h_usd = volume_24h_usd,
          rep_mcap_usd = mcap_usd,
          rep_age_str = age_str,
          rep_risk_level = risk_level_of (risk_score scored),
          rep_risk_score = min 100 (risk_score scored),
          rep_warnings = warnings scored,
          rep_positives = positives scored\<rparr>)"

text \<open>
  How a call of \<^verbatim>\<open>analyze\<close> ends without a report: one of the three
  \<^verbatim>\<open>raise ValueError(...)\<close> statements, with its message, or an exception of a callee
  that \<^verbatim>\<open>analyze\<close> does not catch.
\<close>

datatype analyze_failure = ValueError string | Uncaught exn

definition analyze :: "outside \<Rightarrow> string \<Rightarrow> analyze_failure + SecurityReport" where
  "analyze out addr =
     (if \<not> is_valid_address out addr then Inl (ValueError ''Invalid mint address format'')
      else if \<not> is_token_account out addr then
        Inl (ValueError ''Address is not a valid SPL token mint'')
      else
        case get_token_info out addr of
          None \<Rightarrow> Inl (ValueError ''Could not fetch token information'')
        | Some token_info \<Rightarrow>
            (case analyze_holders (largest_accounts out addr) (raw_supply token_info) of
               Inl e \<Rightarrow> Inl (Uncaught e)
             | Inr holder_data0 \<Rightarrow> Inr (build_report out addr token_info holder_data0)))"

section \<open>The weight table of the risk score, as the specification words it\<close>

text \<open>
  Second definitions, written from the specification and not from the code, to
  be compared with \<open>run_scoring\<close>: an authority that is present weighs 25; the
  top holder weighs 20 above 50 percent, 10 above 20 and 5 above 10; the ten
  largest holders weigh 5 above 80 percent; the LP burn weighs nothing from 90
  percent on, 5 from 50 on, 10 above 0, and 15 at 0 or without a pool; a known
  liquidity below the floor (5000 in USD, or 2000 in the native asset when no
  USD rate is known) weighs 5.
\<close>

definition spec_authority_points :: "string option \<Rightarrow> int" where
  "spec_authority_points a = (if a \<noteq> None then 25 else 0)"

definition spec_top_holder_points :: "rat \<Rightarrow> int" where
  "spec_top_holder_points t = (if t > 50 then 20 else if t > 20 then 10 else if t > 10 then 5 else 0)"

definition spec_top_10_points :: "rat \<Rightarrow> int" where
  "spec_top_10_points t = (if t > 80 then 5 else 0)"

definition spec_lp_points :: "bool \<Rightarrow> rat \<Rightarrow> int" where
  "spec_lp_points found pct =
     (if \<not> found \<or> pct = 0 then 15 else if pct \<ge> 90 then 0 else if pct \<ge> 50 then 5 else 10)"

definition spec_liquidity_points :: "LPInfo option \<Rightarrow> rat \<Rightarrow> int" where
  "spec_liquidity_points info rate =
     (case info of
        None \<Rightarrow> 0
      | Some l \<Rightarrow>
          if rate > 0 then (if liquidity_wxnt l * rate < 5000 then 5 else 0)
          else (if liquidity_wxnt l < 2000 then 5 else 0))"

definition spec_score :: "scoring_input \<Rightarrow> int" where
  "spec_score i =
     spec_authority_points (mint_authority (si_token_info i))
     + spec_authority_points (freeze_authority (si_token_info i))
     + spec_top_holder_points (si_top_holder_percent i)
     + spec_top_10_points (si_top_10_percent i)
     + spec_lp_points (si_status_lp_found i \<or> si_lp_info i \<noteq> None) (si_total_burn_percent i)
     + spec_liquidity_points (si_lp_info i) (si_xnt_usd_rate i)"

text \<open>
  What the producers of the inputs guarantee: an authority that is present is a
  non-empty base58 string, the burn percentage is not negative, and an
  \<^verbatim>\<open>LPInfo\<close> carries a positive liquidity (\<^verbatim>\<open>get_lp_info\<close> builds one from positive
  reserves only).
\<close>

definition well_formed_input :: "scoring_input \<Rightarrow> bool" where
  "well_formed_input i =
     (mint_authority (si_token_info i) \<noteq> Some []
      \<and> freeze_authority (si_token_info i) \<noteq> Some []
      \<and> 0 \<le> si_total_burn_percent i
      \<and> (case si_lp_info i of None \<Rightarrow> True | Some l \<Rightarrow> 0 < liquidity_wxnt l))"

text \<open>A mint with an active mint authority, a 60 percent top holder, an unburned pool and thin liquidity.\<close>

definition demo_token :: TokenInfo where
  "demo_token =
     \<lparr>mint_address = ''Mint'', decimals = 9, raw_supply = 1000,
      mint_authority = Some ''Auth'', freeze_authority = None, is_initialized = True\<rparr>"

definition demo_lp_info :: LPInfo where
  "demo_lp_info =
     \<lparr>info_pool_address = [], info_lp_mint = [], token_reserve = 250, wxnt_reserve = 500,
      price_in_wxnt = 2, liquidity_wxnt = 1000, pool_authority = ''Authority''\<rparr>"

definition demo_scoring_input :: scoring_input where
  "demo_scoring_input =
     \<lparr>si_token_info = demo_token, si_top_holder_percent = 60, si_top_10_percent = 70,
      si_status_lp_found = True, si_total_burn_percent = 0,
      si_lp_info = Some demo_lp_info, si_xnt_usd_rate = 2\<rparr>"

section \<open>Sample chains\<close>

text \<open>
  A chain on which every call raises, and one whose only transaction for the LP
  mint \<^verbatim>\<open>LP\<close> holds a single \<^verbatim>\<open>burn\<close> instruction of 5 base units of another mint.
\<close>

definition silent_chain :: chain where
  "silent_chain =
     \<lparr>b58encode = (\<lambda>bs. []),
      b64decode = (\<lambda>text. Inl Exn),
      lp_status_cache = (\<lambda>mint. None),
      program_accounts = (\<lambda>mint off. Inl Exn),
      account_is_mint = (\<lambda>candidate. Inl Exn),
      mint_supply_info = (\<lambda>lp. Inl Exn),
      initial_lp_supply = (\<lambda>lp decs. 0),
      total_lp_minted = (\<lambda>lp decs. 0),
      identify_pool_pair = (\<lambda>pool mint raw lp. ''Unknown''),
      incinerator_accounts = (\<lambda>lp. Inl Exn),
      signatures_for = (\<lambda>a limit. Inl Exn),
      get_transaction = (\<lambda>sg. Inl Exn)\<rparr>"

definition foreign_burn :: parsed_instruction where
  "foreign_burn =
     \<lparr>ix_type = ''burn'', ix_mint = ''OTHER'', ix_token_amount = None, ix_amount = 5\<rparr>"

definition foreign_burn_chain :: chain where
  "foreign_burn_chain =
     silent_chain
       \<lparr>signatures_for := (\<lambda>a limit. Inr [\<lparr>signature = Some ''s1''\<rparr>]),
        get_transaction :=
          (\<lambda>sg. Inr (Some \<lparr>instructions = [Some foreign_burn], inner_instructions = []\<rparr>))\<rparr>"

section \<open>Sample inputs for the mint decoder\<close>

text \<open>
  A stand-in for \<^verbatim>\<open>base58.b58encode\<close> and an 82-byte mint account: option flag 1
  and an authority of 32 bytes 7, supply 1000, 9 decimals, initialized, freeze
  option flag 0.
\<close>

definition demo_b58 :: "byte list \<Rightarrow> string" where
  "demo_b58 bs = (if list_all (\<lambda>b. b = 7) bs then ''Seven'' else ''Other'')"

definition demo_mint_bytes :: "byte list" where
  "demo_mint_bytes =
     [1, 0, 0, 0] @ replicate 32 7 @ [232, 3, 0, 0, 0, 0, 0, 0] @ [9, 1]
     @ [0, 0, 0, 0] @ replicate 32 0"

section \<open>Sample input for the holder analysis\<close>

definition demo_largest :: "largest_account list" where
  "demo_largest =
     [\<lparr>la_amount = 500, la_ui_amount = Some 5, la_address = ''A''\<rparr>,
      \<lparr>la_amount = 250, la_ui_amount = Some (5/2), la_address = ''B''\<rparr>]"

section \<open>Sample surroundings of \<^verbatim>\<open>analyze\<close>\<close>

text \<open>
  \<open>silent_outside\<close>: every address decodes to 32 bytes and every
  \<^verbatim>\<open>getAccountInfo\<close> call raises. \<open>demo_outside\<close>: the account is owned by the token
  program and carries the sample mint bytes.
\<close>

definition silent_outside :: outside where
  "silent_outside =
     \<lparr>b58decode = (\<lambda>a. Inr (replicate 32 0)),
      account_info = (\<lambda>n a. Inl Exn),
      largest_accounts = (\<lambda>a. Inl Exn),
      on_chain = silent_chain,
      token_age = (\<lambda>a. None),
      lp_info_of = (\<lambda>a decs. None),
      accurate_holder_count = (\<lambda>a. 0),
      price_change_of = (\<lambda>a price. None),
      xnt_usd_price = 0,
      lp_burn_tx_of = (\<lambda>lp. None),
      volume_of = (\<lambda>a. 0),
      token_metadata = (\<lambda>a. None),
      token_list = (\<lambda>a. None)\<rparr>"

definition demo_outside :: outside where
  "demo_outside =
     silent_outside
       \<lparr>account_info :=
          (\<lambda>n a. Inr (Some \<lparr>av_owner = Some TOKEN_PROGRAM, av_data = Some ''AQAAAA''\<rparr>)),
        on_chain :=
          silent_chain\<lparr>b58encode := demo_b58, b64decode := (\<lambda>text. Inr demo_mint_bytes)\<rparr>\<rparr>"

section \<open>LP status: the invariant of the pool loop\<close>

text \<open>
  The LP mints that are present in a list of pool dictionaries, the shape of a
  single dictionary (a pool without LP mint carries zeros, a pool with an LP mint
  has a non-zero original supply and the capped percentage of its own figures),
  and what the accumulators of the loop satisfy after every turn.
\<close>

definition known_mints :: "pool_info list \<Rightarrow> string option list" where
  "known_mints ps = filter (\<lambda>m. m \<noteq> None) (map lp_mint ps)"

definition entry_ok :: "pool_info \<Rightarrow> bool" where
  "entry_ok p =
     (case lp_mint p of
        None \<Rightarrow>
          lp_original_supply p = 0 \<and> burned_amount p = 0 \<and> burn_tx_count p = 0
          \<and> lp_supply p = 0 \<and> burn_percent p = 0
      | Some m \<Rightarrow>
          lp_original_supply p \<noteq> 0
          \<and> burn_percent p =
              min 100 (if lp_original_supply p > 0
                       then burned_amount p / lp_original_supply p * 100 else 0))"

definition pools_inv :: "pools_state \<Rightarrow> bool" where
  "pools_inv st =
     (total_lp_supply st = sum_list (map lp_original_supply (pool_details st))
      \<and> total_burned st = sum_list (map burned_amount (pool_details st))
      \<and> total_burn_txs st = sum_list (map burn_tx_count (pool_details st))
      \<and> distinct (known_mints (pool_details st))
      \<and> list_all entry_ok (pool_details st))"


text \<open>The dictionary after the key \<^verbatim>\<open>burn_percent_of_total\<close> is set, and the accumulators after the loop.\<close>

definition with_share :: "rat \<Rightarrow> pool_info \<Rightarrow> pool_info" where
  "with_share total_supply p =
     p\<lparr>burn_percent_of_total :=
         Some (if total_supply > 0 then burned_amount p / total_supply * 100 else 0)\<rparr>"

definition final_state :: "chain \<Rightarrow> string \<Rightarrow> pools_state" where
  "final_state env mint =
     process_pools env mint (discover env mint search_offsets []) pools_state_init"

section \<open>Sample chains for the LP status\<close>

text \<open>
  \<open>demo_chain\<close>: three pool accounts at offset 200, the first of them again at
  offset 232. The bytes of \<^verbatim>\<open>Pool1\<close> and \<^verbatim>\<open>Pool3\<close> hold the same LP mint at offset
  136, those of \<^verbatim>\<open>Pool2\<close> hold none. The LP mint has a current supply of 400, a
  first mint of 1000 and 100 tokens at the incinerator.
  \<open>failing_pools_chain\<close>: one pool account whose data does not decode.
\<close>

definition raw_with_lp :: "byte list" where
  "raw_with_lp = replicate 136 0 @ replicate 32 7"

definition raw_without_lp :: "byte list" where
  "raw_without_lp = replicate 168 0"

definition demo_chain :: chain where
  "demo_chain =
     silent_chain
       \<lparr>b58encode := demo_b58,
        b64decode :=
          (\<lambda>text. if text = ''withlp'' then Inr raw_with_lp
                   else if text = ''nolp'' then Inr raw_without_lp
                   else Inl Exn),
        program_accounts :=
          (\<lambda>mint off.
             if off = 200 then
               Inr [\<lparr>pubkey = ''Pool1'', account_data = Some ''withlp''\<rparr>,
                    \<lparr>pubkey = ''Pool2'', account_data = Some ''nolp''\<rparr>,
                    \<lparr>pubkey = ''Pool3'', account_data = Some ''withlp''\<rparr>]
             else if off = 232 then
               Inr [\<lparr>pubkey = ''Pool1'', account_data = Some ''withlp''\<rparr>]
             else Inl Exn),
        account_is_mint := (\<lambda>candidate. Inr (candidate = ''Seven'')),
        mint_supply_info := (\<lambda>lp. Inr (Some (400, 0))),
        initial_lp_supply := (\<lambda>lp decs. 1000),
        incinerator_accounts := (\<lambda>lp. Inr [\<lparr>ia_pubkey = ''Burn1'', ia_ui_amount = 100\<rparr>]),
        signatures_for :=
          (\<lambda>a limit.
             if a = ''Burn1'' then Inr [\<lparr>signature = Some ''t1''\<rparr>, \<lparr>signature = Some ''t2''\<rparr>]
             else Inr [])\<rparr>"

definition demo_pool1 :: pool_info where
  "demo_pool1 =
     \<lparr>pool_address = ''Pool1'', lp_mint = Some ''Seven'', lp_supply = 400,
      lp_original_supply = 1100, burned_amount = 700, burn_percent = 700 / 11,
      burn_tx_count = 2, burn_account = Some ''Burn1'', burn_method = Some ''incinerator'',
      pair_label = ''Unknown'', burn_percent_of_total = Some (700 / 11)\<rparr>"

definition demo_pool2 :: pool_info where
  "demo_pool2 =
     \<lparr>pool_address = ''Pool2'', lp_mint = None, lp_supply = 0,
      lp_original_supply = 0, burned_amount = 0, burn_percent = 0,
      burn_tx_count = 0, burn_account = None, burn_method = None,
      pair_label = ''Unknown'', burn_percent_of_total = Some 0\<rparr>"

definition demo_status :: lp_result where
  "demo_status =
     \<lparr>lp_found = True, lp_burned = True, lp_burn_percent = 700 / 11,
      lp_address = Some ''Pool1'', res_lp_mint = Some ''Seven'', lp_total_supply = 400,
      lp_burned_amount = 700, pools = [demo_pool1, demo_pool2],
      total_lp_supply_all_pools = 1100, total_burned_all_pools = 700,
      total_burn_percent = 700 / 11, res_burn_tx_count = 2\<rparr>"

definition failing_pools_chain :: chain where
  "failing_pools_chain =
     silent_chain
       \<lparr>program_accounts :=
          (\<lambda>mint off. Inr [\<lparr>pubkey = ''Pool1'', account_data = Some ''garbled''\<rparr>])\<rparr>"

definition demo_candidate :: pool_candidate where
  "demo_candidate = \<lparr>pc_address = ''Pool3'', pc_data = Some ''withlp''\<rparr>"

definition demo_state :: pools_state where
  "demo_state =
     \<lparr>pool_details = [demo_pool1\<lparr>burn_percent_of_total := None\<rparr>],
      total_lp_supply = 1100, total_current_supply = 400, total_burned = 700,
      total_burn_txs = 2\<rparr>"

section \<open>Risk scoring: the score and the classification\<close>

lemma risk_score_warn [simp]: "risk_score (warn pts w s) = risk_score s + pts"
  by (simp add: warn_def)

lemma risk_score_praise [simp]: "risk_score (praise p s) = risk_score s"
  by (simp add: praise_def)

lemma truthy_iff: "a \<noteq> Some [] \<Longrightarrow> truthy a = (a \<noteq> None)"
  by (cases a) (auto simp: truthy_def)

lemma score_mint: "mint_authority t \<noteq> Some [] \<Longrightarrow>
  risk_score (score_mint_authority t s) = risk_score s + spec_authority_points (mint_authority t)"
  by (simp add: score_mint_authority_def spec_authority_points_def truthy_iff)

lemma score_freeze: "freeze_authority t \<noteq> Some [] \<Longrightarrow>
  risk_score (score_freeze_authority t s) = risk_score s + spec_authority_points (freeze_authority t)"
  by (simp add: score_freeze_authority_def spec_authority_points_def truthy_iff)

lemma score_top: "risk_score (score_top_holder t s) = risk_score s + spec_top_holder_points t"
  by (simp add: score_top_holder_def spec_top_holder_points_def)

lemma score_top10: "risk_score (score_top_10 t s) = risk_score s + spec_top_10_points t"
  by (simp add: score_top_10_def spec_top_10_points_def)

lemma score_lp: "0 \<le> pct \<Longrightarrow> risk_score (score_lp_burn f pct s) = risk_score s + spec_lp_points f pct"
  by (auto simp add: score_lp_burn_def spec_lp_points_def)

lemma score_liq:
  assumes "case si_lp_info i of None \<Rightarrow> True | Some l \<Rightarrow> 0 < liquidity_wxnt l"
  shows "risk_score (score_liquidity (liquidity_usd_of i) (liquidity_xn_of i) s)
         = risk_score s + spec_liquidity_points (si_lp_info i) (si_xnt_usd_rate i)"
proof (cases "si_lp_info i")
  case None
  then show ?thesis
    by (simp add: score_liquidity_def liquidity_usd_of_def liquidity_xn_of_def spec_liquidity_points_def)
next
  case (Some l)
  with assms have pos: "0 < liquidity_wxnt l" by simp
  show ?thesis
  proof (cases "si_xnt_usd_rate i > 0")
    case True
    with pos have "0 < liquidity_wxnt l * si_xnt_usd_rate i" by simp
    with Some True show ?thesis
      by (simp add: score_liquidity_def liquidity_usd_of_def liquidity_xn_of_def spec_liquidity_points_def)
  next
    case False
    with Some pos show ?thesis
      by (simp add: score_liquidity_def liquidity_usd_of_def liquidity_xn_of_def spec_liquidity_points_def)
  qed
qed

lemma run_scoring_score:
  assumes "well_formed_input i"
  shows "risk_score (run_scoring i) = spec_score i"
  using assms
  by (simp add: run_scoring_def well_formed_input_def score_liq score_lp score_top10 score_top
      score_freeze score_mint spec_score_def scoring_init_def lp_found_of_def)

lemma spec_score_bounds: "0 \<le> spec_score i \<and> spec_score i \<le> 95"
  by (simp add: spec_score_def spec_authority_points_def spec_top_holder_points_def
      spec_top_10_points_def spec_lp_points_def spec_liquidity_points_def split: option.split)

text \<open>
  Claim C1. On well-formed inputs the score that \<^verbatim>\<open>analyze\<close> reports is the sum of
  the weight table: 25 for a present mint authority, 25 for a present freeze
  authority, 20, 10 or 5 for the top holder above 50, 20 or 10 percent, 5 for the
  ten largest holders above 80 percent, for the LP burn nothing from 90 percent
  on, 5 from 50 on, 10 above 0 and 15 at 0 or without a pool, and 5 for a
  liquidity below the floor. The reported score lies in 0..100, and the
  classification is critical exactly from 75 on, high exactly in 50..74, medium
  exactly in 25..49 and safe exactly below 25.
\<close>

theorem risk_scoring_matches_weight_table:
  assumes "well_formed_input i"
  shows "report_risk_score i = spec_score i
       \<and> 0 \<le> report_risk_score i \<and> report_risk_score i \<le> 100
       \<and> (report_risk_level i = CRITICAL \<longleftrightarrow> 75 \<le> report_risk_score i)
       \<and> (report_risk_level i = HIGH \<longleftrightarrow> 50 \<le> report_risk_score i \<and> report_risk_score i < 75)
       \<and> (report_risk_level i = MEDIUM \<longleftrightarrow> 25 \<le> report_risk_score i \<and> report_risk_score i < 50)
       \<and> (report_risk_level i = SAFE \<longleftrightarrow> report_risk_score i < 25)"
proof -
  have eq: "risk_score (run_scoring i) = spec_score i"
    using assms by (rule run_scoring_score)
  have b: "0 \<le> spec_score i" "spec_score i \<le> 95"
    using spec_score_bounds [of i] by simp_all
  have r: "report_risk_score i = spec_score i"
    using eq b by (simp add: report_risk_score_def)
  show ?thesis
    using b by (auto simp: r report_risk_level_def eq risk_level_of_def)
qed

theorem risk_scoring_matches_weight_table_witness:
  "well_formed_input demo_scoring_input
   \<and> report_risk_score demo_scoring_input = 65
   \<and> report_risk_level demo_scoring_input = HIGH"
proof -
  have wf: "well_formed_input demo_scoring_input"
    by (simp add: well_formed_input_def demo_scoring_input_def demo_token_def demo_lp_info_def)
  have sc: "spec_score demo_scoring_input = 65"
    by (simp add: spec_score_def demo_scoring_input_def demo_token_def demo_lp_info_def
        spec_authority_points_def spec_top_holder_points_def spec_top_10_points_def
        spec_lp_points_def spec_liquidity_points_def)
  show ?thesis
    using risk_scoring_matches_weight_table [OF wf] wf sc by simp
qed

section \<open>Burn-instruction detection: instructions of another mint\<close>

text \<open>
  Claim C5. The claim is that a burn-type instruction of a mint other than the
  LP mint adds no amount and counts no transaction. The code does otherwise for
  the instruction type \<^verbatim>\<open>burn\<close>: the test is
  \<^verbatim>\<open>ix_mint == lp_mint or ix_type == "burn"\<close>, so a \<^verbatim>\<open>burn\<close> of 5 units of the mint
  \<^verbatim>\<open>OTHER\<close> is added to the burned amount of \<^verbatim>\<open>LP\<close> and counted.
\<close>

theorem check_burn_checked_counts_foreign_burn:
  "ix_mint foreign_burn \<noteq> ''LP''
   \<and> burn_step ''LP'' 0 (Some foreign_burn) (0, 0) = (5, 1)
   \<and> check_burn_checked foreign_burn_chain ''LP'' 0 = (5, 1)"
  by (simp add: check_burn_checked_def foreign_burn_chain_def silent_chain_def
      all_instructions_def burn_step_def foreign_burn_def)

text \<open>A \<^verbatim>\<open>burnChecked\<close> instruction of another mint is left out, as the claim says.\<close>

lemma burn_step_checked_other_mint:
  "ix_type parsed = ''burnChecked'' \<Longrightarrow> ix_mint parsed \<noteq> lp \<Longrightarrow>
   burn_step lp decs (Some parsed) acc = acc"
  by (simp add: burn_step_def)

section \<open>Mint account decoding: the length guard\<close>

lemma length_slice: "b \<le> length xs \<Longrightarrow> length (slice a b xs) = b - a"
  by (simp add: slice_def)

lemma parse_mint_fields_layout:
  assumes "82 \<le> length raw"
  shows "parse_mint_fields enc addr raw = Inr (mint_layout enc addr raw)"
  using assms
  by (simp add: parse_mint_fields_def mint_layout_def unpack_u32_def unpack_u64_def
      index_byte_def length_slice Let_def)

text \<open>
  Claim C6. On a buffer shorter than 82 bytes the decoder stops at the length
  guard, before any read, and produces no mint state. On a buffer of 82 bytes or
  more every read of the fixed-offset layout stays inside the buffer (no checked
  read fails) and the decoder returns the mint state of that layout; so decoding
  succeeds only from 82 bytes on.
\<close>

theorem decode_mint_length_guard:
  "(length raw < 82 \<longrightarrow>
      decode_mint_result enc addr raw = Inl TooShort \<and> decode_mint enc addr raw = None)
   \<and> (82 \<le> length raw \<longrightarrow>
      decode_mint_result enc addr raw = Inr (mint_layout enc addr raw)
      \<and> decode_mint enc addr raw = Some (mint_layout enc addr raw))"
  by (simp add: decode_mint_def decode_mint_result_def parse_mint_fields_layout)

lemma demo_len: "length demo_mint_bytes = 82"
  by (simp add: demo_mint_bytes_def)

lemma demo_layout: "mint_layout demo_b58 ''M'' demo_mint_bytes =
   \<lparr>mint_address = ''M'', decimals = 9, raw_supply = 1000,
      mint_authority = Some ''Seven'', freeze_authority = None, is_initialized = True\<rparr>"
  by code_simp

theorem decode_mint_length_guard_witness:
  "length ([] :: byte list) < 82 \<and> decode_mint demo_b58 ''M'' [] = None
   \<and> 82 \<le> length demo_mint_bytes
   \<and> decode_mint demo_b58 ''M'' demo_mint_bytes =
       Some \<lparr>mint_address = ''M'', decimals = 9, raw_supply = 1000,
             mint_authority = Some ''Seven'', freeze_authority = None, is_initialized = True\<rparr>"
  using decode_mint_length_guard [of "[]" demo_b58 "''M''"]
        decode_mint_length_guard [of demo_mint_bytes demo_b58 "''M''"]
        demo_len demo_layout
  by simp

section \<open>Holder analysis: the statistics\<close>

lemma percent_of_pos: "0 < tot \<Longrightarrow> percent_of a tot = Inr (of_int a / of_nat tot * 100)"
  by (simp add: percent_of_def py_div_def)

lemma holders_loop_result:
  assumes "0 < tot"
  shows "\<exists>st'. holders_loop tot i hs st = Inr st'
      \<and> total_in_top_10 st' = total_in_top_10 st + sum_list (map la_amount (take (10 - i) hs))
      \<and> first_percent st' =
          (case hs of [] \<Rightarrow> first_percent st
           | h # _ \<Rightarrow> if i = 0 then of_int (la_amount h) / of_nat tot * 100 else first_percent st)
      \<and> length (holders st') = length (holders st) + length hs"
proof (induction hs arbitrary: i st)
  case Nil
  show ?case by simp
next
  case (Cons h hs)
  let ?pct = "of_int (la_amount h) / of_nat tot * 100 :: rat"
  let ?st1 = "st\<lparr>holders := holders st @
                 [\<lparr>rank = i + 1, address = la_address h, amount = la_ui_amount h, percent = ?pct\<rparr>]\<rparr>"
  let ?st2 = "if i < 10 then ?st1\<lparr>total_in_top_10 := total_in_top_10 ?st1 + la_amount h\<rparr> else ?st1"
  let ?st3 = "if i = 0 then ?st2\<lparr>first_percent := ?pct\<rparr> else ?st2"
  have step: "holders_loop tot i (h # hs) st = holders_loop tot (i + 1) hs ?st3"
    using assms by (simp add: percent_of_pos Let_def)
  from Cons.IH [of "i + 1" ?st3] obtain st' where
    r: "holders_loop tot (i + 1) hs ?st3 = Inr st'"
    and t: "total_in_top_10 st' = total_in_top_10 ?st3 + sum_list (map la_amount (take (10 - (i + 1)) hs))"
    and f: "first_percent st' =
          (case hs of [] \<Rightarrow> first_percent ?st3
           | h' # _ \<Rightarrow> if i + 1 = 0 then of_int (la_amount h') / of_nat tot * 100 else first_percent ?st3)"
    and l: "length (holders st') = length (holders ?st3) + length hs"
    by blast
  have f': "first_percent st' = first_percent ?st3"
    using f by (cases hs) simp_all
  have t3: "total_in_top_10 ?st3 + sum_list (map la_amount (take (10 - (i + 1)) hs))
        = total_in_top_10 st + sum_list (map la_amount (take (10 - i) (h # hs)))"
    by (cases "i < 10") (simp_all add: take_Cons')
  have "total_in_top_10 st' = total_in_top_10 st + sum_list (map la_amount (take (10 - i) (h # hs)))"
    using t t3 by simp
  moreover have "first_percent st' = (if i = 0 then ?pct else first_percent st)"
    using f' by simp
  moreover have "length (holders st') = length (holders st) + length (h # hs)"
    using l by simp
  ultimately show ?case
    using step r by simp
qed

text \<open>
  Claim C7. With a total supply of 0 the holder analysis returns the all-zero
  statistics and raises nothing. With any other total supply it returns
  statistics whose top-10 percentage is the sum of the raw amounts of the first
  ten accounts, divided by the total supply, times 100, and whose top-holder
  percentage is that of the first account (0 without accounts).
\<close>

theorem analyze_holders_stats:
  "(total_supply = 0 \<longrightarrow> analyze_holders answer total_supply = Inr holder_data_default)
   \<and> (total_supply \<noteq> 0 \<longrightarrow>
        (\<exists>r. analyze_holders answer total_supply = Inr r
           \<and> top_10_percent r =
               of_int (sum_list (map la_amount (take 10 (get_token_largest_accounts answer 20))))
                 / of_nat total_supply * 100
           \<and> top_holder_percent r =
               (case get_token_largest_accounts answer 20 of
                  [] \<Rightarrow> 0
                | h # _ \<Rightarrow> of_int (la_amount h) / of_nat total_supply * 100)))"
proof (intro conjI impI)
  assume "total_supply = 0"
  then show "analyze_holders answer total_supply = Inr holder_data_default"
    by (simp add: analyze_holders_def)
next
  assume nz: "total_supply \<noteq> 0"
  then have pos: "0 < total_supply" by simp
  let ?largest = "get_token_largest_accounts answer 20"
  let ?st0 = "\<lparr>total_in_top_10 = 0, holders = [], first_percent = 0\<rparr>"
  show "\<exists>r. analyze_holders answer total_supply = Inr r
           \<and> top_10_percent r = of_int (sum_list (map la_amount (take 10 ?largest))) / of_nat total_supply * 100
           \<and> top_holder_percent r =
               (case ?largest of [] \<Rightarrow> 0 | h # _ \<Rightarrow> of_int (la_amount h) / of_nat total_supply * 100)"
  proof (cases "?largest = []")
    case True
    then show ?thesis
      by (simp add: analyze_holders_def holder_data_default_def)
  next
    case False
    from holders_loop_result [OF pos, of 0 ?largest ?st0] obtain st' where
      r: "holders_loop total_supply 0 ?largest ?st0 = Inr st'"
      and t0: "total_in_top_10 st' = total_in_top_10 ?st0 + sum_list (map la_amount (take (10 - 0) ?largest))"
      and f0: "first_percent st' =
          (case ?largest of [] \<Rightarrow> first_percent ?st0
           | h # _ \<Rightarrow> if (0::nat) = 0 then of_int (la_amount h) / of_nat total_supply * 100
                      else first_percent ?st0)"
      by blast
    have t: "total_in_top_10 st' = sum_list (map la_amount (take 10 ?largest))"
      using t0 by simp
    have f: "first_percent st' =
          (case ?largest of [] \<Rightarrow> 0 | h # _ \<Rightarrow> of_int (la_amount h) / of_nat total_supply * 100)"
      using f0 by (simp split: list.splits)
    show ?thesis
      using False nz r t f pos
      by (simp add: analyze_holders_def Let_def percent_of_pos)
  qed
qed

theorem analyze_holders_stats_witness:
  "analyze_holders (Inr demo_largest) 0 = Inr holder_data_default
   \<and> (1000::nat) \<noteq> 0
   \<and> (\<exists>r. analyze_holders (Inr demo_largest) 1000 = Inr r
         \<and> top_10_percent r = 75 \<and> top_holder_percent r = 50)"
  using analyze_holders_stats [of 0 "Inr demo_largest"]
        analyze_holders_stats [of 1000 "Inr demo_largest"]
  by (simp add: get_token_largest_accounts_def demo_largest_def)

section \<open>The entry point: how a call ends\<close>

lemma analyze_holders_never_raises: "\<exists>r. analyze_holders answer total_supply = Inr r"
proof (cases "get_token_largest_accounts answer 20 = [] \<or> total_supply = 0")
  case True
  then show ?thesis by (auto simp: analyze_holders_def)
next
  case False
  then have pos: "0 < total_supply" by simp
  obtain st' where "holders_loop total_supply 0 (get_token_largest_accounts answer 20)
      \<lparr>total_in_top_10 = 0, holders = [], first_percent = 0\<rparr> = Inr st'"
    using holders_loop_result [OF pos] by blast
  with False pos show ?thesis
    by (simp add: analyze_holders_def Let_def percent_of_pos)
qed

text \<open>
  Claim C8, as stated, fails where the mint account cannot be fetched at all:
  the address is valid, both \<^verbatim>\<open>getAccountInfo\<close> calls raise, and \<^verbatim>\<open>analyze\<close> ends with
  the message of the ownership check, not with that of the missing token
  information.
\<close>

theorem analyze_unfetchable_counterexample:
  "is_valid_address silent_outside ''M''
   \<and> get_account_info silent_outside 0 ''M'' = None
   \<and> get_account_info silent_outside 1 ''M'' = None
   \<and> get_token_info silent_outside ''M'' = None
   \<and> analyze silent_outside ''M'' = Inl (ValueError ''Address is not a valid SPL token mint'')
   \<and> analyze silent_outside ''M'' \<noteq> Inl (ValueError ''Could not fetch token information'')"
  by (simp add: analyze_def is_valid_address_def is_token_account_def get_token_info_def
      get_account_info_def silent_outside_def)

lemma get_token_info_None_iff:
  "get_token_info out addr = None \<longleftrightarrow>
     (case get_account_info out 1 addr of
        None \<Rightarrow> True
      | Some v \<Rightarrow>
          (case av_data v of
             None \<Rightarrow> True
           | Some text \<Rightarrow>
               (case b64decode (on_chain out) text of
                  Inl e \<Rightarrow> True
                | Inr raw_data \<Rightarrow> length raw_data < 82)))"
  by (auto simp: get_token_info_def decode_mint_def decode_mint_result_def
      parse_mint_fields_layout split: option.splits sum.splits)

text \<open>
  Claim C8, amended. \<^verbatim>\<open>analyze\<close> raises the first \<^verbatim>\<open>ValueError\<close> exactly when the
  address does not base58-decode to 32 bytes; the second exactly when the address
  is valid and the ownership check fails, that is, when the first fetch of the
  account raises or gives no account, or its owner is neither token program; the
  third exactly when both checks pass and the second fetch of the mint account
  raises or gives no account or no data, or the data is not base64 or is shorter
  than 82 bytes. The three messages are pairwise distinct, and in all other
  cases \<^verbatim>\<open>analyze\<close> returns a report.
\<close>

theorem analyze_failure_kinds:
  "(analyze out addr = Inl (ValueError ''Invalid mint address format'')
      \<longleftrightarrow> \<not> is_valid_address out addr)
   \<and> (analyze out addr = Inl (ValueError ''Address is not a valid SPL token mint'')
      \<longleftrightarrow> is_valid_address out addr \<and> \<not> is_token_account out addr)
   \<and> (analyze out addr = Inl (ValueError ''Could not fetch token information'')
      \<longleftrightarrow> is_valid_address out addr \<and> is_token_account out addr
          \<and> get_token_info out addr = None)
   \<and> ((\<exists>report. analyze out addr = Inr report)
      \<longleftrightarrow> is_valid_address out addr \<and> is_token_account out addr
          \<and> get_token_info out addr \<noteq> None)
   \<and> (is_token_account out addr \<longleftrightarrow>
        (\<exists>v. get_account_info out 0 addr = Some v
           \<and> (av_owner v = Some TOKEN_PROGRAM \<or> av_owner v = Some TOKEN_2022_PROGRAM)))
   \<and> (get_token_info out addr = None \<longleftrightarrow>
        (case get_account_info out 1 addr of
           None \<Rightarrow> True
         | Some v \<Rightarrow>
             (case av_data v of
                None \<Rightarrow> True
              | Some text \<Rightarrow>
                  (case b64decode (on_chain out) text of
                     Inl e \<Rightarrow> True
                   | Inr raw_data \<Rightarrow> length raw_data < 82))))
   \<and> ''Invalid mint address format'' \<noteq> ''Address is not a valid SPL token mint''
   \<and> ''Invalid mint address format'' \<noteq> ''Could not fetch token information''
   \<and> ''Address is not a valid SPL token mint'' \<noteq> ''Could not fetch token information''"
proof -
  note inf = get_token_info_None_iff [of out addr]
  have h: "\<And>t. \<exists>r. analyze_holders (largest_accounts out addr) (raw_supply t) = Inr r"
    by (rule analyze_holders_never_raises)
  have tok: "is_token_account out addr \<longleftrightarrow>
        (\<exists>v. get_account_info out 0 addr = Some v
           \<and> (av_owner v = Some TOKEN_PROGRAM \<or> av_owner v = Some TOKEN_2022_PROGRAM))"
    by (simp add: is_token_account_def split: option.splits)
  show ?thesis
  proof (cases "get_token_info out addr")
    case None
    then show ?thesis using tok inf by (simp add: analyze_def)
  next
    case (Some t)
    from h [of t] obtain r where
      "analyze_holders (largest_accounts out addr) (raw_supply t) = Inr r" by blast
    with Some show ?thesis using tok inf by (simp add: analyze_def)
  qed
qed

lemma demo_token_info:
  "get_token_info demo_outside ''M'' = Some (mint_layout demo_b58 ''M'' demo_mint_bytes)"
  by (simp add: get_token_info_def get_account_info_def demo_outside_def silent_outside_def
      silent_chain_def decode_mint_def decode_mint_result_def demo_len parse_mint_fields_layout)

theorem analyze_failure_kinds_witness:
  "is_valid_address demo_outside ''M'' \<and> is_token_account demo_outside ''M''
   \<and> get_token_info demo_outside ''M'' \<noteq> None
   \<and> (\<exists>report. analyze demo_outside ''M'' = Inr report)
   \<and> \<not> is_valid_address (silent_outside\<lparr>b58decode := (\<lambda>a. Inl Exn)\<rparr>) ''M''
   \<and> analyze (silent_outside\<lparr>b58decode := (\<lambda>a. Inl Exn)\<rparr>) ''M''
       = Inl (ValueError ''Invalid mint address format'')"
proof -
  have v: "is_valid_address demo_outside ''M''"
    by (simp add: is_valid_address_def demo_outside_def silent_outside_def)
  have t: "is_token_account demo_outside ''M''"
    by (simp add: is_token_account_def get_account_info_def demo_outside_def silent_outside_def)
  have i: "get_token_info demo_outside ''M'' \<noteq> None"
    by (simp add: demo_token_info)
  have n: "\<not> is_valid_address (silent_outside\<lparr>b58decode := (\<lambda>a. Inl Exn)\<rparr>) ''M''"
    by (simp add: is_valid_address_def)
  show ?thesis
    using analyze_failure_kinds [of demo_outside "''M''"]
          analyze_failure_kinds [of "silent_outside\<lparr>b58decode := (\<lambda>a. Inl Exn)\<rparr>" "''M''"]
          v t i n
    by simp
qed

section \<open>LP status: the pool loop, the aggregation and their properties\<close>

lemma known_mints_append: "known_mints (ps @ qs) = known_mints ps @ known_mints qs"
  by (simp add: known_mints_def)

lemma set_known_mints: "set (known_mints ps) = {m. m \<noteq> None \<and> m \<in> lp_mint ` set ps}"
  by (auto simp: known_mints_def)

lemma pct_if_positive_value:
  "pct_if_positive a b = Inr (if b > 0 then a / b * 100 else 0)"
  by (simp add: pct_if_positive_def py_div_def)

lemma pools_inv_init: "pools_inv pools_state_init"
  by (simp add: pools_inv_def pools_state_init_def known_mints_def)

lemma entry_ok_no_lp: "entry_ok (no_lp_entry env mint pool raw)"
  by (simp add: entry_ok_def no_lp_entry_def)

lemma pools_inv_add_no_lp:
  assumes "pools_inv st"
  shows "pools_inv (st\<lparr>pool_details := pool_details st @ [no_lp_entry env mint pool raw]\<rparr>)"
  using assms
  by (simp add: pools_inv_def known_mints_append entry_ok_no_lp)
     (simp add: no_lp_entry_def known_mints_def)

lemma pool_with_lp_inv:
  assumes "pools_inv st" and "pool_with_lp env mint pool raw lp st = Inr st'"
  shows "pools_inv st'"
proof (cases "mint_supply_info env lp")
  case (Inl e)
  with assms show ?thesis by (simp add: pool_with_lp_def)
next
  case (Inr info)
  show ?thesis
  proof (cases info)
    case None
    with Inr assms show ?thesis by (simp add: pool_with_lp_def)
  next
    case (Some sd)
    obtain sup_raw decs where sd: "sd = (sup_raw, decs)" by (cases sd)
    show ?thesis
    proof (cases "incinerator_accounts env lp")
      case (Inl e)
      with Inr Some sd assms show ?thesis by (simp add: pool_with_lp_def)
    next
      case toks: (Inr toks)
      obtain inc txs acct where il: "incinerator_loop env toks (0, 0, None) = (inc, txs, acct)"
        by (cases "incinerator_loop env toks (0, 0, None)")
      obtain bc n where cb: "check_burn_checked env lp decs = (bc, n)"
        by (cases "check_burn_checked env lp decs")
      obtain burned orig where rc:
        "reconcile env lp decs (initial_lp_supply env lp decs) (of_int sup_raw / 10 ^ decs) inc bc
           = (burned, orig)"
        by (cases "reconcile env lp decs (initial_lp_supply env lp decs) (of_int sup_raw / 10 ^ decs) inc bc")
      show ?thesis
      proof (cases "orig = 0 \<or> list_ex (\<lambda>p. lp_mint p = Some lp) (pool_details st)")
        case True
        with Inr Some sd toks il cb rc assms(2) have "st' = st"
          by (auto simp: pool_with_lp_def Let_def pct_if_positive_value split: if_splits)
        with assms(1) show ?thesis by simp
      next
        case False
        then have fresh: "Some lp \<notin> set (known_mints (pool_details st))"
          by (auto simp: set_known_mints list_ex_iff)
        from False Inr Some sd toks il cb rc assms(2)
        have st': "st' = \<lparr>pool_details = pool_details st @
                             [\<lparr>pool_address = pc_address pool, lp_mint = Some lp,
                               lp_supply = of_int sup_raw / 10 ^ decs,
                               lp_original_supply = orig,
                               burned_amount = burned,
                               burn_percent = min 100 (if orig > 0 then burned / orig * 100 else 0),
                               burn_tx_count = txs + n,
                               burn_account = acct,
                               burn_method = burn_method_of inc bc,
                               pair_label = identify_pool_pair env (pc_address pool) mint raw (Some lp),
                               burn_percent_of_total = None\<rparr>],
                           total_lp_supply = total_lp_supply st + orig,
                           total_current_supply = total_current_supply st + of_int sup_raw / 10 ^ decs,
                           total_burned = total_burned st + burned,
                           total_burn_txs = total_burn_txs st + (txs + n)\<rparr>"
          by (simp add: pool_with_lp_def Let_def pct_if_positive_value)
        show ?thesis
          using assms(1) False fresh
          by (simp add: st' pools_inv_def known_mints_append entry_ok_def)
             (simp add: known_mints_def)
      qed
    qed
  qed
qed

lemma pool_step_inv:
  assumes "pools_inv st"
  shows "pools_inv (pool_step env mint pool st)"
proof -
  have body: "\<And>data st'. pool_body env mint pool data st = Inr st' \<Longrightarrow> pools_inv st'"
    using assms
    by (auto simp: pool_body_def pools_inv_add_no_lp pool_with_lp_inv
        split: sum.splits if_splits option.splits)
  show ?thesis
    using assms body
    by (auto simp: pool_step_def split: option.splits sum.splits)
qed

lemma process_pools_inv:
  "pools_inv st \<Longrightarrow> pools_inv (process_pools env mint found st)"
  unfolding process_pools_def
  by (induction found arbitrary: st) (simp_all add: pool_step_inv)


lemma final_state_inv: "pools_inv (final_state env mint)"
  unfolding final_state_def by (rule process_pools_inv [OF pools_inv_init])

lemma set_percent_of_total_value:
  "set_percent_of_total t ps = Inr (map (with_share t) ps)"
  by (induction ps) (simp_all add: pct_if_positive_value with_share_def)

lemma sort_pools_Nil_iff: "sort_pools ps = [] \<longleftrightarrow> ps = []"
proof
  assume "sort_pools ps = []"
  then have "length (sort_pools ps) = 0" by simp
  then show "ps = []" by (simp add: sort_pools_def)
qed (simp add: sort_pools_def)

lemma aggregate_value:
  assumes "pool_details st \<noteq> []"
  shows "aggregate result st =
     Inr (result
       \<lparr>pools := map (with_share (total_lp_supply st)) (sort_pools (pool_details st)),
        total_lp_supply_all_pools := total_lp_supply st,
        total_burned_all_pools := total_burned st,
        total_burn_percent :=
          min 100 (if total_lp_supply st > 0
                   then total_burned st / total_lp_supply st * 100 else 0),
        res_burn_tx_count := total_burn_txs st,
        res_lp_mint := lp_mint (hd (sort_pools (pool_details st))),
        lp_total_supply := lp_supply (hd (sort_pools (pool_details st))),
        lp_burned_amount := burned_amount (hd (sort_pools (pool_details st))),
        lp_burn_percent := burn_percent (hd (sort_pools (pool_details st))),
        lp_address := Some (pool_address (hd (sort_pools (pool_details st)))),
        lp_burned := (total_burned st > 0)\<rparr>)"
proof (cases "sort_pools (pool_details st)")
  case Nil
  with assms show ?thesis by (simp add: sort_pools_Nil_iff)
next
  case (Cons main_pool others)
  then show ?thesis
    by (simp add: aggregate_def pct_if_positive_value set_percent_of_total_value)
qed

lemma discover_Nil_final: "discover env mint search_offsets [] = [] \<Longrightarrow>
  final_state env mint = pools_state_init"
  by (simp add: final_state_def process_pools_def)

lemma compute_lp_status_value:
  "compute_lp_status env mint =
     (if discover env mint search_offsets [] = [] then result_default
      else if pool_details (final_state env mint) = [] then result_default\<lparr>lp_found := True\<rparr>
      else
        result_default
          \<lparr>lp_found := True,
           pools := map (with_share (total_lp_supply (final_state env mint)))
                      (sort_pools (pool_details (final_state env mint))),
           total_lp_supply_all_pools := total_lp_supply (final_state env mint),
           total_burned_all_pools := total_burned (final_state env mint),
           total_burn_percent :=
             min 100 (if total_lp_supply (final_state env mint) > 0
                      then total_burned (final_state env mint)
                           / total_lp_supply (final_state env mint) * 100
                      else 0),
           res_burn_tx_count := total_burn_txs (final_state env mint),
           res_lp_mint := lp_mint (hd (sort_pools (pool_details (final_state env mint)))),
           lp_total_supply := lp_supply (hd (sort_pools (pool_details (final_state env mint)))),
           lp_burned_amount := burned_amount (hd (sort_pools (pool_details (final_state env mint)))),
           lp_burn_percent := burn_percent (hd (sort_pools (pool_details (final_state env mint)))),
           lp_address := Some (pool_address (hd (sort_pools (pool_details (final_state env mint))))),
           lp_burned := (total_burned (final_state env mint) > 0)\<rparr>)"
  by (simp add: compute_lp_status_def Let_def aggregate_value final_state_def)

lemma compute_pools:
  "pools (compute_lp_status env mint) =
     map (with_share (total_lp_supply (final_state env mint)))
       (sort_pools (pool_details (final_state env mint)))"
  by (auto simp: compute_lp_status_value result_default_def sort_pools_def
      discover_Nil_final pools_state_init_def)



lemma mset_sort_pools: "mset (sort_pools ps) = mset ps"
  by (simp add: sort_pools_def)



lemma with_share_fields [simp]:
  "lp_original_supply (with_share t p) = lp_original_supply p"
  "burned_amount (with_share t p) = burned_amount p"
  "burn_tx_count (with_share t p) = burn_tx_count p"
  "lp_mint (with_share t p) = lp_mint p"
  "lp_supply (with_share t p) = lp_supply p"
  "burn_percent (with_share t p) = burn_percent p"
  "pool_address (with_share t p) = pool_address p"
  by (simp_all add: with_share_def)

lemma comp_with_share [simp]:
  "lp_original_supply \<circ> with_share t = lp_original_supply"
  "burned_amount \<circ> with_share t = burned_amount"
  "burn_tx_count \<circ> with_share t = burn_tx_count"
  "lp_mint \<circ> with_share t = lp_mint"
  by (simp_all add: fun_eq_iff)

lemma known_mints_sort_pools: "distinct (known_mints (sort_pools ps)) = distinct (known_mints ps)"
proof -
  have "mset (known_mints (sort_pools ps)) = mset (known_mints ps)"
    by (simp add: known_mints_def mset_sort_pools)
  then show ?thesis by (rule mset_eq_imp_distinct_iff)
qed

lemma entry_ok_with_share: "entry_ok (with_share t p) = entry_ok p"
  by (simp add: entry_ok_def split: option.splits)

lemma compute_entries_ok: "list_all entry_ok (pools (compute_lp_status env mint))"
proof -
  have "list_all entry_ok (pool_details (final_state env mint))"
    using final_state_inv [of env mint] by (simp add: pools_inv_def)
  then have "\<forall>p \<in> set (sort_pools (pool_details (final_state env mint))). entry_ok p"
    by (simp add: list_all_iff sort_pools_def)
  then show ?thesis
    by (simp add: compute_pools list_all_iff entry_ok_with_share)
qed

lemma demo_chain_status: "compute_lp_status demo_chain ''M'' = demo_status"
  by code_simp


lemma demo_cache: "lp_status_cache demo_chain ''M'' = None"
  by (simp add: demo_chain_def silent_chain_def)

lemma demo_check: "check_lp_status demo_chain ''M'' = demo_status"
  by (simp add: check_lp_status_def demo_cache demo_chain_status)

lemma incinerator_loop_nonneg:
  "0 \<le> fst st \<Longrightarrow> 0 \<le> fst (incinerator_loop env toks st)"
proof (induction toks arbitrary: st)
  case Nil
  then show ?case by simp
next
  case (Cons tok toks)
  obtain amt txs acct where st: "st = (amt, txs, acct)" by (cases st)
  with Cons.prems have "0 \<le> amt" by simp
  then show ?case
    using Cons.IH by (simp add: st)
qed

text \<open>
  Claim C2. For a pool whose LP mint is known, with the supply facts read from
  the chain: when the initial supply is positive and not below the current
  supply, the reconciliation gives burned = (initial - current) + incinerator
  amount and original = initial + incinerator amount when that amount is
  positive, else original = initial; the pool, unless its LP mint is already
  listed, is appended with these figures, a positive original supply and the
  burn percentage min(100, burned / original * 100). In every pools list that
  the function computes, an entry with a positive original supply has the burn
  percentage min(100, burned / original * 100).
\<close>

theorem pool_reconciliation_supply_diff:
  assumes "mint_supply_info env lp = Inr (Some (sup_raw, decs))"
      and "incinerator_accounts env lp = Inr toks"
      and "incinerator_loop env toks (0, 0, None) = (incinerator_amount, incinerator_txs, acct)"
      and "initial_supply = initial_lp_supply env lp decs"
      and "current_supply = of_int sup_raw / 10 ^ decs"
      and "0 < initial_supply" and "current_supply \<le> initial_supply"
  shows "reconcile env lp decs initial_supply current_supply incinerator_amount bc_burned =
           (initial_supply - current_supply + incinerator_amount,
            if incinerator_amount > 0 then initial_supply + incinerator_amount else initial_supply)
       \<and> (\<not> list_ex (\<lambda>p. lp_mint p = Some lp) (pool_details st) \<longrightarrow>
            (\<exists>st' p. pool_with_lp env mint pool raw lp st = Inr st'
               \<and> pool_details st' = pool_details st @ [p]
               \<and> burned_amount p = initial_supply - current_supply + incinerator_amount
               \<and> lp_original_supply p =
                   (if incinerator_amount > 0 then initial_supply + incinerator_amount
                    else initial_supply)
               \<and> 0 < lp_original_supply p
               \<and> burn_percent p = min 100 (burned_amount p / lp_original_supply p * 100)))
       \<and> (lp_status_cache env mint = None \<longrightarrow>
            (\<forall>p \<in> set (pools (check_lp_status env mint)).
               0 < lp_original_supply p \<longrightarrow>
               burn_percent p = min 100 (burned_amount p / lp_original_supply p * 100)))"
proof (intro conjI impI)
  show rc: "reconcile env lp decs initial_supply current_supply incinerator_amount bc_burned =
           (initial_supply - current_supply + incinerator_amount,
            if incinerator_amount > 0 then initial_supply + incinerator_amount else initial_supply)"
    using assms(6,7) by (simp add: reconcile_def)
  have nonneg: "0 \<le> incinerator_amount"
    using incinerator_loop_nonneg [of "(0, 0, None)" env toks] assms(3) by simp
  then have pos: "0 < (if incinerator_amount > 0 then initial_supply + incinerator_amount
                       else initial_supply)"
    using assms(6) by simp
  {
    assume fresh: "\<not> list_ex (\<lambda>p. lp_mint p = Some lp) (pool_details st)"
    obtain bc n where cb: "check_burn_checked env lp decs = (bc, n)"
      by (cases "check_burn_checked env lp decs")
    have rc': "reconcile env lp decs (initial_lp_supply env lp decs) (of_int sup_raw / 10 ^ decs)
                 incinerator_amount bc =
           (initial_supply - current_supply + incinerator_amount,
            if incinerator_amount > 0 then initial_supply + incinerator_amount else initial_supply)"
      using assms(4-7) by (simp add: reconcile_def)
    show "\<exists>st' p. pool_with_lp env mint pool raw lp st = Inr st'
               \<and> pool_details st' = pool_details st @ [p]
               \<and> burned_amount p = initial_supply - current_supply + incinerator_amount
               \<and> lp_original_supply p =
                   (if incinerator_amount > 0 then initial_supply + incinerator_amount
                    else initial_supply)
               \<and> 0 < lp_original_supply p
               \<and> burn_percent p = min 100 (burned_amount p / lp_original_supply p * 100)"
      using assms(1-3) cb rc' fresh pos
      by (simp add: pool_with_lp_def Let_def pct_if_positive_value)
  }
  {
    assume miss: "lp_status_cache env mint = None"
    have ok: "list_all entry_ok (pools (compute_lp_status env mint))"
      by (rule compute_entries_ok)
    show "\<forall>p \<in> set (pools (check_lp_status env mint)).
               0 < lp_original_supply p \<longrightarrow>
               burn_percent p = min 100 (burned_amount p / lp_original_supply p * 100)"
    proof (intro ballI impI)
      fix p
      assume p: "p \<in> set (pools (check_lp_status env mint))"
        and o: "0 < lp_original_supply p"
      from p miss ok have e: "entry_ok p"
        by (simp add: check_lp_status_def list_all_iff)
      show "burn_percent p = min 100 (burned_amount p / lp_original_supply p * 100)"
      proof (cases "lp_mint p")
        case None
        with e o show ?thesis by (simp add: entry_ok_def)
      next
        case (Some m)
        with e o show ?thesis by (simp add: entry_ok_def)
      qed
    qed
  }
qed

theorem pool_reconciliation_supply_diff_witness:
  "mint_supply_info demo_chain ''Seven'' = Inr (Some (400, 0))
   \<and> incinerator_accounts demo_chain ''Seven'' = Inr [\<lparr>ia_pubkey = ''Burn1'', ia_ui_amount = 100\<rparr>]
   \<and> incinerator_loop demo_chain [\<lparr>ia_pubkey = ''Burn1'', ia_ui_amount = 100\<rparr>] (0, 0, None)
       = (100, 2, Some ''Burn1'')
   \<and> (0::rat) < 1000 \<and> (400::rat) \<le> 1000
   \<and> reconcile demo_chain ''Seven'' 0 1000 400 100 0 = (700, 1100)"
proof -
  have a1: "mint_supply_info demo_chain ''Seven'' = Inr (Some (400, 0))"
    by (simp add: demo_chain_def silent_chain_def)
  have a2: "incinerator_accounts demo_chain ''Seven'' = Inr [\<lparr>ia_pubkey = ''Burn1'', ia_ui_amount = 100\<rparr>]"
    by (simp add: demo_chain_def silent_chain_def)
  have a3: "incinerator_loop demo_chain [\<lparr>ia_pubkey = ''Burn1'', ia_ui_amount = 100\<rparr>] (0, 0, None)
       = (100, 2, Some ''Burn1'')"
    by (simp add: demo_chain_def silent_chain_def)
  have a4: "(1000::rat) = initial_lp_supply demo_chain ''Seven'' 0"
    by (simp add: demo_chain_def silent_chain_def)
  have a5: "(400::rat) = of_int 400 / 10 ^ 0" by simp
  have a6: "(0::rat) < 1000" by simp
  have a7: "(400::rat) \<le> 1000" by simp
  show ?thesis
    using pool_reconciliation_supply_diff [OF a1 a2 a3 a4 a5 a6 a7, of 0 pools_state_init "''M''" demo_candidate raw_with_lp]
          a1 a2 a3
    by simp
qed



lemma pool_with_lp_cases:
  assumes "pool_with_lp env mint pool raw lp st = Inr st'"
  shows "st' = st
       \<or> (\<exists>p. pool_details st' = pool_details st @ [p] \<and> lp_mint p = Some lp
              \<and> lp_original_supply p \<noteq> 0
              \<and> \<not> list_ex (\<lambda>q. lp_mint q = Some lp) (pool_details st))"
  using assms
  by (auto simp: pool_with_lp_def Let_def pct_if_positive_value
      split: sum.splits option.splits prod.splits if_splits)





text \<open>
  Claim C10. In the pools list computed after a cache miss the LP mints that are
  present are pairwise distinct; and a turn of the loop for a pool whose LP mint
  is already listed leaves the list and the totals as they were, so the first
  pool with that LP mint is the one kept and counted.
\<close>

theorem lp_mints_not_repeated:
  "(lp_status_cache env mint = None \<longrightarrow>
      distinct (known_mints (pools (check_lp_status env mint))))
   \<and> (list_ex (\<lambda>p. lp_mint p = Some lp) (pool_details st)
        \<and> pool_with_lp env mint pool raw lp st = Inr st' \<longrightarrow> st' = st)"
proof (intro conjI impI)
  assume miss: "lp_status_cache env mint = None"
  have "distinct (known_mints (pool_details (final_state env mint)))"
    using final_state_inv [of env mint] by (simp add: pools_inv_def)
  then have "distinct (known_mints (sort_pools (pool_details (final_state env mint))))"
    by (simp add: known_mints_sort_pools)
  then have "distinct (known_mints (pools (compute_lp_status env mint)))"
    by (simp add: compute_pools known_mints_def)
  with miss show "distinct (known_mints (pools (check_lp_status env mint)))"
    by (simp add: check_lp_status_def)
next
  assume "list_ex (\<lambda>p. lp_mint p = Some lp) (pool_details st)
        \<and> pool_with_lp env mint pool raw lp st = Inr st'"
  then show "st' = st"
    using pool_with_lp_cases [of env mint pool raw lp st st'] by blast
qed

lemma demo_duplicate: "pool_with_lp demo_chain ''M'' demo_candidate raw_with_lp ''Seven'' demo_state
   = Inr demo_state"
  by code_simp

theorem lp_mints_not_repeated_witness:
  "lp_status_cache demo_chain ''M'' = None
   \<and> distinct (known_mints (pools (check_lp_status demo_chain ''M'')))
   \<and> known_mints (pools (check_lp_status demo_chain ''M'')) = [Some ''Seven'']
   \<and> list_ex (\<lambda>p. lp_mint p = Some ''Seven'') (pool_details demo_state)
   \<and> pool_with_lp demo_chain ''M'' demo_candidate raw_with_lp ''Seven'' demo_state = Inr demo_state"
proof -
  have k: "known_mints (pools (check_lp_status demo_chain ''M'')) = [Some ''Seven'']"
    by (simp add: demo_check demo_status_def known_mints_def demo_pool1_def demo_pool2_def)
  have l: "list_ex (\<lambda>p. lp_mint p = Some ''Seven'') (pool_details demo_state)"
    by (simp add: demo_state_def demo_pool1_def)
  show ?thesis
    using lp_mints_not_repeated [of demo_chain "''M''" "''Seven''" demo_state demo_candidate raw_with_lp demo_state]
          demo_cache k l demo_duplicate
    by simp
qed

lemma discover_all_fail:
  "\<forall>off \<in> set offs. \<exists>e. program_accounts env mint off = Inl e \<Longrightarrow>
   discover env mint offs found = found"
  by (induction offs arbitrary: found) auto

lemma pool_step_absorbs:
  "pc_data pool = Some data \<Longrightarrow> \<exists>e. pool_body env mint pool data st = Inl e \<Longrightarrow>
   pool_step env mint pool st = st"
  by (auto simp: pool_step_def)

lemma process_all_fail:
  assumes "\<forall>pool \<in> set found. \<forall>data st. pc_data pool = Some data \<longrightarrow>
             (\<exists>e. pool_body env mint pool data st = Inl e)"
  shows "process_pools env mint found st = st"
  using assms
proof (induction found arbitrary: st)
  case Nil
  then show ?case by (simp add: process_pools_def)
next
  case (Cons pool found)
  have "pool_step env mint pool st = st"
  proof (cases "pc_data pool")
    case None
    then show ?thesis by (simp add: pool_step_def)
  next
    case (Some data)
    with Cons.prems have "\<exists>e. pool_body env mint pool data st = Inl e" by simp
    with Some show ?thesis by (rule pool_step_absorbs)
  qed
  moreover have "process_pools env mint found st = st"
    using Cons.IH Cons.prems by simp
  ultimately show ?case by (simp add: process_pools_def)
qed

text \<open>
  Claim C9. \<^verbatim>\<open>check_lp_status\<close> returns a result dictionary on every chain. When
  every discovery query raises, it is the default dictionary. When pools are
  found and the body of the loop raises for each of them, it is the default
  dictionary with \<^verbatim>\<open>lp_found\<close> set. An exception in the body of the loop leaves
  the accumulators untouched; pool data that does not decode raises there; a
  pool without discoverable LP mint is listed with the neutral entry; the
  statements after the loop raise nothing when a pool is listed; and \<^verbatim>\<open>lp_found\<close>
  says whether discovery found a pool.
\<close>

theorem check_lp_status_absorbs_failures:
  "(lp_status_cache env mint = None
      \<and> (\<forall>off \<in> set search_offsets. \<exists>e. program_accounts env mint off = Inl e)
      \<longrightarrow> check_lp_status env mint = result_default)
   \<and> (lp_status_cache env mint = None
      \<and> discover env mint search_offsets [] \<noteq> []
      \<and> (\<forall>pool \<in> set (discover env mint search_offsets []). \<forall>data st.
            pc_data pool = Some data \<longrightarrow> (\<exists>e. pool_body env mint pool data st = Inl e))
      \<longrightarrow> check_lp_status env mint = result_default\<lparr>lp_found := True\<rparr>)
   \<and> (pc_data pool = Some data \<and> (\<exists>e. pool_body env mint pool data st = Inl e)
      \<longrightarrow> pool_step env mint pool st = st)
   \<and> ((\<exists>e. b64decode env data = Inl e) \<longrightarrow> (\<exists>e. pool_body env mint pool data st = Inl e))
   \<and> (b64decode env data = Inr raw \<and> 168 \<le> length raw
        \<and> find_lp_mint env mint raw lp_offsets = None
      \<longrightarrow> pool_body env mint pool data st
            = Inr (st\<lparr>pool_details := pool_details st @ [no_lp_entry env mint pool raw]\<rparr>))
   \<and> (pool_details st \<noteq> [] \<longrightarrow> (\<exists>r. aggregate result st = Inr r))
   \<and> (lp_status_cache env mint = None \<longrightarrow>
        lp_found (check_lp_status env mint) = (discover env mint search_offsets [] \<noteq> []))"
proof (intro conjI impI)
  assume a: "lp_status_cache env mint = None
      \<and> (\<forall>off \<in> set search_offsets. \<exists>e. program_accounts env mint off = Inl e)"
  then have "discover env mint search_offsets [] = []"
    using discover_all_fail [of search_offsets env mint "[]"] by blast
  with a show "check_lp_status env mint = result_default"
    by (simp add: check_lp_status_def compute_lp_status_value)
next
  assume a: "lp_status_cache env mint = None
      \<and> discover env mint search_offsets [] \<noteq> []
      \<and> (\<forall>pool \<in> set (discover env mint search_offsets []). \<forall>data st.
            pc_data pool = Some data \<longrightarrow> (\<exists>e. pool_body env mint pool data st = Inl e))"
  then have "final_state env mint = pools_state_init"
    unfolding final_state_def by (intro process_all_fail) blast
  with a show "check_lp_status env mint = result_default\<lparr>lp_found := True\<rparr>"
    by (simp add: check_lp_status_def compute_lp_status_value pools_state_init_def)
next
  assume "pc_data pool = Some data \<and> (\<exists>e. pool_body env mint pool data st = Inl e)"
  then show "pool_step env mint pool st = st"
    using pool_step_absorbs by blast
next
  assume "\<exists>e. b64decode env data = Inl e"
  then show "\<exists>e. pool_body env mint pool data st = Inl e"
    by (auto simp: pool_body_def)
next
  assume "b64decode env data = Inr raw \<and> 168 \<le> length raw
        \<and> find_lp_mint env mint raw lp_offsets = None"
  then show "pool_body env mint pool data st
            = Inr (st\<lparr>pool_details := pool_details st @ [no_lp_entry env mint pool raw]\<rparr>)"
    by (simp add: pool_body_def)
next
  assume "pool_details st \<noteq> []"
  then show "\<exists>r. aggregate result st = Inr r"
    by (simp add: aggregate_value)
next
  assume "lp_status_cache env mint = None"
  then show "lp_found (check_lp_status env mint) = (discover env mint search_offsets [] \<noteq> [])"
    by (simp add: check_lp_status_def compute_lp_status_value result_default_def)
qed

theorem check_lp_status_absorbs_failures_witness:
  "lp_status_cache silent_chain ''M'' = None
   \<and> program_accounts silent_chain ''M'' 200 = Inl Exn
   \<and> check_lp_status silent_chain ''M'' = result_default
   \<and> discover failing_pools_chain ''M'' search_offsets [] \<noteq> []
   \<and> check_lp_status failing_pools_chain ''M'' = result_default\<lparr>lp_found := True\<rparr>"
proof -
  have c: "lp_status_cache silent_chain ''M'' = None" "lp_status_cache failing_pools_chain ''M'' = None"
    by (simp_all add: silent_chain_def failing_pools_chain_def)
  have q: "\<forall>off \<in> set search_offsets. \<exists>e. program_accounts silent_chain ''M'' off = Inl e"
    by (simp add: silent_chain_def)
  have d: "discover failing_pools_chain ''M'' search_offsets []
             = [\<lparr>pc_address = ''Pool1'', pc_data = Some ''garbled''\<rparr>]"
    by (simp add: failing_pools_chain_def silent_chain_def search_offsets_def)
  have f: "\<forall>pool \<in> set (discover failing_pools_chain ''M'' search_offsets []). \<forall>data st.
            pc_data pool = Some data \<longrightarrow> (\<exists>e. pool_body failing_pools_chain ''M'' pool data st = Inl e)"
    by (simp add: d pool_body_def failing_pools_chain_def silent_chain_def)
  show ?thesis
    using check_lp_status_absorbs_failures [of silent_chain "''M''"]
          check_lp_status_absorbs_failures [of failing_pools_chain "''M''"]
          c q d f
    by (simp add: silent_chain_def)
qed

end
